theory Spec2Isabelle
  imports Complex_Main "HOL-Library.Sublist"
begin

section \<open>JavaScript strings and arrays\<close>

text \<open>
  A JavaScript string is modelled as a \<^typ>\<open>string\<close>: a list of 8-bit code units. The
  built-in methods the two routes call are written out below for that alphabet.
  \<^item> \<open>toLowerCase\<close> maps the letters \<open>A\<close> to \<open>Z\<close> to \<open>a\<close> to \<open>z\<close> and leaves every other
    code unit as it is.
  \<^item> \<open>trim\<close> removes the white space and line terminators of ECMAScript that fit in 8
    bits from both ends: TAB, LF, VT, FF, CR, SPACE and NBSP.
  \<^item> \<open>split\<close> with a one-character separator returns the segments between the separators;
    the result is never empty (\<open>''''.split('.')\<close> is \<open>['''']\<close>).
  \<^item> \<open>join\<close> concatenates the elements with the separator between neighbours.
\<close>

definition is_ws :: "char \<Rightarrow> bool" where
  "is_ws c = (c \<in> set [CHR 0x09, CHR 0x0A, CHR 0x0B, CHR 0x0C, CHR 0x0D, CHR 0x20, CHR 0xA0])"

definition lower_char :: "char \<Rightarrow> char" where
  "lower_char c =
     (case map_of (zip ''ABCDEFGHIJKLMNOPQRSTUVWXYZ'' ''abcdefghijklmnopqrstuvwxyz'') c of
        Some l \<Rightarrow> l
      | None \<Rightarrow> c)"

definition toLowerCase :: "string \<Rightarrow> string" where
  "toLowerCase s = map lower_char s"

definition trim :: "string \<Rightarrow> string" where
  "trim s = rev (dropWhile is_ws (rev (dropWhile is_ws s)))"

fun split :: "char \<Rightarrow> string \<Rightarrow> string list" where
  "split sep [] = [[]]"
| "split sep (c # cs) =
     (if c = sep then [] # split sep cs
      else (case split sep cs of
              [] \<Rightarrow> [[c]]
            | seg # segs \<Rightarrow> (c # seg) # segs))"

fun join :: "string \<Rightarrow> string list \<Rightarrow> string" where
  "join sep [] = []"
| "join sep [x] = x"
| "join sep (x # y # ys) = x @ sep @ join sep (y # ys)"

text \<open>\<open>xs.pop()\<close> as an expression: the last element, \<open>undefined\<close> on an empty array.\<close>

definition pop :: "'a list \<Rightarrow> 'a option" where
  "pop xs = (if xs = [] then None else Some (last xs))"

text \<open>
  A \<open>Set\<close> keeps its elements in insertion order; \<open>add\<close> of an element that is already
  there changes nothing. \<open>new Set(xs)\<close> adds the elements of \<open>xs\<close> from left to right, and
  spreading the set into an array lists them in that order.
\<close>

definition Set_add :: "'a list \<Rightarrow> 'a \<Rightarrow> 'a list" where
  "Set_add s x = (if x \<in> set s then s else s @ [x])"

definition new_Set :: "'a list \<Rightarrow> 'a list" where
  "new_Set xs = foldl Set_add [] xs"

definition newline :: string where
  "newline = [CHR 0x0A]"

section \<open>The OCR route\<close>

subsection \<open>Requests, responses and the outside world\<close>

record uploaded_file =
  originalname :: string
  mimetype :: string
  buffer :: "char list"

text \<open>
  A thrown value: an \<open>Error\<close> with its message and, for an HTTP client error, the body of
  the upstream response (\<open>error.response?.data\<close>).
\<close>

datatype js_error = JsError (message: string) (response_data: "string option")

abbreviation Error :: "string \<Rightarrow> js_error" where
  "Error m \<equiv> JsError m None"

text \<open>The body of a poll reply: \<open>{status, analyzeResult: {pages: [{lines: [{content}]}]}}\<close>.\<close>

record poll_data =
  status :: string
  analyzeResult :: "string list list option"

text \<open>
  What the handler asks of the OCR service, in the order it asks: the submission (content
  type and bytes), the wait before a poll in milliseconds, and the poll of a location.
\<close>

datatype ocr_call = Submit string "char list" | Sleep nat | Poll string

text \<open>
  The outside world of one request: the reply to the submission (the
  \<open>operation-location\<close> header, when there is one), the reply to the \<open>i\<close>-th poll of a
  location, and the text layer the PDF library finds (\<open>pdfData.text\<close>). Each of them
  can throw.
\<close>

record ocr_env =
  axios_post :: "string \<Rightarrow> char list \<Rightarrow> js_error + string option"
  axios_get :: "string \<Rightarrow> nat \<Rightarrow> js_error + poll_data"
  pdf :: "char list \<Rightarrow> js_error + string option"

datatype body =
    ErrorBody string
  | ErrorDetailsBody string string
  | TextBody string

datatype http_response = Response nat body

subsection \<open>processImageWithOCR\<close>

function poll_loop :: "ocr_env \<Rightarrow> string \<Rightarrow> nat \<Rightarrow> (js_error + string) \<times> ocr_call list" where
  "poll_loop env loc i =
     (if i < 15 then
        (case axios_get env loc i of
           Inl e \<Rightarrow> (Inl e, [Sleep 1000, Poll loc])
         | Inr d \<Rightarrow>
             if status d = ''succeeded'' then
               (case analyzeResult d of
                  None \<Rightarrow>
                    (Inl (Error ''Cannot read properties of undefined (reading 'pages')''),
                     [Sleep 1000, Poll loc])
                | Some pages \<Rightarrow> (Inr (join newline (concat pages)), [Sleep 1000, Poll loc]))
             else if status d = ''failed'' then
               (Inl (Error ''Azure OCR failed''), [Sleep 1000, Poll loc])
             else
               (case poll_loop env loc (Suc i) of
                  (r, calls) \<Rightarrow> (r, Sleep 1000 # Poll loc # calls)))
      else (Inl (Error ''OCR timeout''), []))"
  by pat_completeness auto
termination
  by (relation "measure (\<lambda>(env, loc, i). 15 - i)") auto

definition processImageWithOCR ::
  "ocr_env \<Rightarrow> char list \<Rightarrow> string \<Rightarrow> (js_error + string) \<times> ocr_call list" where
  "processImageWithOCR env imageBuffer mimeType =
     (case axios_post env mimeType imageBuffer of
        Inl e \<Rightarrow> (Inl e, [Submit mimeType imageBuffer])
      | Inr operationLocation \<Rightarrow>
          (case operationLocation of
             None \<Rightarrow>
               (Inl (Error ''Azure did not return operation-location''),
                [Submit mimeType imageBuffer])
           | Some loc \<Rightarrow>
               if loc = [] then
                 (Inl (Error ''Azure did not return operation-location''),
                  [Submit mimeType imageBuffer])
               else
                 (case poll_loop env loc 0 of
                    (r, calls) \<Rightarrow> (r, Submit mimeType imageBuffer # calls))))"

subsection \<open>The handler\<close>

definition supportedExtensions :: "string list" where
  "supportedExtensions = [''jpg'', ''jpeg'', ''png'', ''pdf'']"

text \<open>
  \<open>file.originalname.split('.').pop().toLowerCase()\<close>. The array that \<open>split\<close> returns is
  never empty, so \<open>pop\<close> never returns \<open>undefined\<close> here; the model gives that branch the
  empty extension.
\<close>

definition file_ext :: "string \<Rightarrow> string" where
  "file_ext name =
     (case pop (split CHR ''.'' name) of
        Some seg \<Rightarrow> toLowerCase seg
      | None \<Rightarrow> [])"

definition unsupported_response :: http_response where
  "unsupported_response =
     Response 400
       (ErrorBody ''Only .jpg, .jpeg, .png images or .pdf documents are supported'')"

definition extraction_failed :: "js_error \<Rightarrow> http_response" where
  "extraction_failed e =
     Response 500
       (ErrorDetailsBody ''Text extraction failed''
          (case response_data e of
             None \<Rightarrow> message e
           | Some d \<Rightarrow> if d = [] then message e else d))"

text \<open>
  Lines 98 and 99:
  \<open>[...new Set(extractedText.split('\n').filter(l => l.trim()))].join('\n')\<close>.
\<close>

definition dedupe_lines :: "string \<Rightarrow> string" where
  "dedupe_lines extractedText =
     join newline (new_Set (filter (\<lambda>l. trim l \<noteq> []) (split CHR 0x0A extractedText)))"

definition handle_pdf :: "ocr_env \<Rightarrow> uploaded_file \<Rightarrow> http_response \<times> ocr_call list" where
  "handle_pdf env file =
     (case pdf env (buffer file) of
        Inl e \<Rightarrow> (extraction_failed e, [])
      | Inr pdfText \<Rightarrow>
          (let textLayer = (case pdfText of None \<Rightarrow> [] | Some t \<Rightarrow> t) in
           case processImageWithOCR env (buffer file) ''application/pdf'' of
             (ocr, calls) \<Rightarrow>
               (let extractedText =
                      (case ocr of
                         Inl ocrError \<Rightarrow> textLayer
                       | Inr ocrText \<Rightarrow>
                           if ocrText \<noteq> [] \<and> trim ocrText \<noteq> []
                           then textLayer @ newline @ newline @ ocrText
                           else textLayer)
                in if extractedText = [] \<or> trim extractedText = [] then
                     (Response 400
                        (ErrorBody
                           ''No text found in PDF. The PDF may be empty or contain unsupported content.''),
                      calls)
                   else (Response 200 (TextBody (dedupe_lines extractedText)), calls))))"

definition handle_image :: "ocr_env \<Rightarrow> uploaded_file \<Rightarrow> http_response \<times> ocr_call list" where
  "handle_image env file =
     (case processImageWithOCR env (buffer file) (mimetype file) of
        (Inl e, calls) \<Rightarrow> (extraction_failed e, calls)
      | (Inr extractedText, calls) \<Rightarrow>
          if extractedText = [] \<or> trim extractedText = [] then
            (Response 400
               (ErrorBody
                  ''No text found in image. Please ensure the image contains clear, readable text.''),
             calls)
          else (Response 200 (TextBody extractedText), calls))"

text \<open>
  The route \<open>POST /\<close>: the response and the calls made to the OCR service while it was
  computed. \<open>req.file\<close> is \<open>undefined\<close> when no file was uploaded.
\<close>

definition ocr_route :: "ocr_env \<Rightarrow> uploaded_file option \<Rightarrow> http_response \<times> ocr_call list" where
  "ocr_route env req_file =
     (case req_file of
        None \<Rightarrow> (Response 400 (ErrorBody ''No file uploaded''), [])
      | Some file \<Rightarrow>
          (let ext = file_ext (originalname file) in
           if ext \<notin> set supportedExtensions then (unsupported_response, [])
           else if ext = ''pdf'' then handle_pdf env file
           else handle_image env file))"

section \<open>JSON.parse\<close>

text \<open>
  The grading route parses the reply of the text-generation service with the built-in
  \<open>JSON.parse\<close>. It is modelled after the JSON grammar in two passes over the text, each
  a left-to-right scan: a lexer from characters to tokens and a parser from tokens to a
  value.
  \<^item> A string value is a list of code units (\<^typ>\<open>nat\<close>): a \<open>\u\<close> escape can denote a code
    unit outside the 8-bit alphabet of the text.
  \<^item> A number is the exact rational its decimal notation denotes. The rounding, overflow
    and underflow of IEEE doubles are outside the model.
  \<^item> An object is the list of its properties in creation order; a repeated key
    overwrites the value of the first.
\<close>

datatype json =
    JNull
  | JBool bool
  | JNumber rat
  | JString "nat list"
  | JArray "json list"
  | JObject "(nat list \<times> json) list"

text \<open>The code units of a string of the model.\<close>

definition units :: "string \<Rightarrow> nat list" where
  "units s = map of_char s"

subsection \<open>Scalars\<close>

definition digit_value :: "char \<Rightarrow> nat option" where
  "digit_value c = map_of (zip ''0123456789'' [0, 1, 2, 3, 4, 5, 6, 7, 8, 9]) c"

definition hex_value :: "char \<Rightarrow> nat option" where
  "hex_value c =
     map_of
       (zip ''0123456789abcdefABCDEF''
          [0, 1, 2, 3, 4, 5, 6, 7, 8, 9, 10, 11, 12, 13, 14, 15, 10, 11, 12, 13, 14, 15]) c"

definition is_digit :: "char \<Rightarrow> bool" where
  "is_digit c = (digit_value c \<noteq> None)"

definition digits_value :: "string \<Rightarrow> nat" where
  "digits_value ds = foldl (\<lambda>n d. 10 * n + (case digit_value d of None \<Rightarrow> 0 | Some v \<Rightarrow> v)) 0 ds"

text \<open>\<open>m\<close> times ten to the power \<open>k\<close>.\<close>

definition scale10 :: "int \<Rightarrow> int \<Rightarrow> rat" where
  "scale10 m k = (if 0 \<le> k then of_int m * 10 ^ nat k else of_int m / 10 ^ nat (- k))"

text \<open>
  The exponent part of a number: empty, or \<open>e\<close> or \<open>E\<close>, an optional sign and at least one
  digit, with nothing after the digits.
\<close>

definition exponent_value :: "string \<Rightarrow> int option" where
  "exponent_value s =
     (case s of
        [] \<Rightarrow> Some 0
      | c # r \<Rightarrow>
          if c = CHR ''e'' \<or> c = CHR ''E'' then
            (let (neg, ds) =
                   (case r of
                      [] \<Rightarrow> (False, r)
                    | sg # r' \<Rightarrow>
                        if sg = CHR ''-'' then (True, r')
                        else if sg = CHR ''+'' then (False, r')
                        else (False, r))
             in if ds = [] \<or> \<not> list_all is_digit ds then None
                else Some (if neg then - int (digits_value ds) else int (digits_value ds)))
          else None)"

text \<open>
  A whole number token: an optional minus sign, the integer part (a single \<open>0\<close>, or digits
  that do not start with \<open>0\<close>), an optional fraction (a dot and at least one digit) and an
  optional exponent.
\<close>

definition number_value :: "string \<Rightarrow> rat option" where
  "number_value s =
     (let (neg, s1) =
            (case s of
               [] \<Rightarrow> (False, s)
             | c # r \<Rightarrow> if c = CHR ''-'' then (True, r) else (False, s));
          ip = takeWhile is_digit s1;
          s2 = dropWhile is_digit s1
      in if ip = [] \<or> (1 < length ip \<and> hd ip = CHR ''0'') then None
         else
           (let (fp, s3) =
                  (case s2 of
                     [] \<Rightarrow> (Some [], s2)
                   | c # r \<Rightarrow>
                       if c = CHR ''.'' then
                         (if takeWhile is_digit r = [] then None
                          else Some (takeWhile is_digit r),
                          dropWhile is_digit r)
                       else (Some [], s2))
            in case fp of
                 None \<Rightarrow> None
               | Some fd \<Rightarrow>
                   (case exponent_value s3 of
                      None \<Rightarrow> None
                    | Some e \<Rightarrow>
                        Some (scale10
                                (if neg then - int (digits_value (ip @ fd))
                                 else int (digits_value (ip @ fd)))
                                (e - int (length fd))))))"

text \<open>A token that is neither punctuation nor a string: a literal name or a number.\<close>

definition atom_value :: "string \<Rightarrow> json option" where
  "atom_value a =
     (if a = ''true'' then Some (JBool True)
      else if a = ''false'' then Some (JBool False)
      else if a = ''null'' then Some JNull
      else map_option JNumber (number_value a))"

text \<open>The code unit of a one-character escape: the character after the backslash.\<close>

definition escape_unit :: "char \<Rightarrow> nat option" where
  "escape_unit c =
     map_of
       (zip [CHR 0x22, CHR 0x5C, CHR ''/'', CHR ''b'', CHR ''f'', CHR ''n'', CHR ''r'', CHR ''t'']
          [34, 92, 47, 8, 12, 10, 13, 9]) c"

subsection \<open>The lexer\<close>

datatype token = Punct char | Scalar json

text \<open>
  Where the scan stands: between tokens; inside a literal name or number (with the
  characters read so far); inside a string (with the code units read so far); after a
  backslash; inside the four hexadecimal digits of a \<open>\u\<close> escape (with the digits read so
  far); or past a character that no JSON text has at that place.

  A run of lowercase letters, digits, signs, dots and \<open>E\<close> is read as one token and must be
  a literal name or a number as a whole: in a JSON text two such tokens never touch, so a
  run that is not one token belongs to no JSON text.
\<close>

datatype lex_mode =
    Between
  | Atom string
  | InString "nat list"
  | Escape "nat list"
  | Unicode "nat list" "nat list"
  | Broken

definition is_json_ws :: "char \<Rightarrow> bool" where
  "is_json_ws c = (c \<in> set [CHR 0x20, CHR 0x09, CHR 0x0A, CHR 0x0D])"

definition is_atom_char :: "char \<Rightarrow> bool" where
  "is_atom_char c = (c \<in> set ''0123456789+-.Eabcdefghijklmnopqrstuvwxyz'')"

definition is_control :: "char \<Rightarrow> bool" where
  "is_control c = ((of_char c :: nat) < 32)"

definition start_token :: "token list \<Rightarrow> char \<Rightarrow> token list \<times> lex_mode" where
  "start_token toks c =
     (if is_json_ws c then (toks, Between)
      else if c \<in> set ''{}[]:,'' then (toks @ [Punct c], Between)
      else if c = CHR 0x22 then (toks, InString [])
      else if is_atom_char c then (toks, Atom [c])
      else (toks, Broken))"

fun lex_step :: "token list \<times> lex_mode \<Rightarrow> char \<Rightarrow> token list \<times> lex_mode" where
  "lex_step (toks, Between) c = start_token toks c"
| "lex_step (toks, Atom a) c =
     (if is_atom_char c then (toks, Atom (a @ [c]))
      else (case atom_value a of
              None \<Rightarrow> (toks, Broken)
            | Some v \<Rightarrow> start_token (toks @ [Scalar v]) c))"
| "lex_step (toks, InString s) c =
     (if c = CHR 0x22 then (toks @ [Scalar (JString s)], Between)
      else if c = CHR 0x5C then (toks, Escape s)
      else if is_control c then (toks, Broken)
      else (toks, InString (s @ [of_char c])))"
| "lex_step (toks, Escape s) c =
     (if c = CHR ''u'' then (toks, Unicode s [])
      else (case escape_unit c of
              None \<Rightarrow> (toks, Broken)
            | Some u \<Rightarrow> (toks, InString (s @ [u]))))"
| "lex_step (toks, Unicode s h) c =
     (case hex_value c of
        None \<Rightarrow> (toks, Broken)
      | Some d \<Rightarrow>
          if length h = 3 then (toks, InString (s @ [foldl (\<lambda>n x. 16 * n + x) 0 (h @ [d])]))
          else (toks, Unicode s (h @ [d])))"
| "lex_step (toks, Broken) c = (toks, Broken)"

fun lex_finish :: "token list \<times> lex_mode \<Rightarrow> token list option" where
  "lex_finish (toks, Between) = Some toks"
| "lex_finish (toks, Atom a) = map_option (\<lambda>v. toks @ [Scalar v]) (atom_value a)"
| "lex_finish (toks, m) = None"

definition tokenize :: "string \<Rightarrow> token list option" where
  "tokenize s = lex_finish (foldl lex_step ([], Between) s)"

subsection \<open>The parser\<close>

text \<open>
  \<open>set_property\<close> is the creation of a data property: a key that is there already keeps
  its place and takes the new value.
\<close>

fun set_property :: "(nat list \<times> json) list \<Rightarrow> nat list \<Rightarrow> json \<Rightarrow> (nat list \<times> json) list" where
  "set_property [] k v = [(k, v)]"
| "set_property (p # ps) k v = (if fst p = k then (k, v) # ps else p # set_property ps k v)"

text \<open>
  An open container: an array with its elements so far, or an object with its properties
  so far and the key that waits for its value.
\<close>

datatype frame =
    ArrayFrame "json list"
  | ObjectFrame "(nat list \<times> json) list" "nat list option"

text \<open>What the parser expects next.\<close>

datatype parse_mode =
    Value
  | ValueOrClose
  | KeyOrClose
  | Key
  | ColonNext
  | CommaOrClose
  | Done json
  | Rejected

text \<open>A value is complete: it is the result, or it goes into the innermost open container.\<close>

fun complete :: "json \<Rightarrow> frame list \<Rightarrow> frame list \<times> parse_mode" where
  "complete v [] = ([], Done v)"
| "complete v (ArrayFrame vs # st) = (ArrayFrame (vs @ [v]) # st, CommaOrClose)"
| "complete v (ObjectFrame ms (Some k) # st) =
     (ObjectFrame (set_property ms k v) None # st, CommaOrClose)"
| "complete v (ObjectFrame ms None # st) = ([], Rejected)"

fun value_start :: "frame list \<Rightarrow> token \<Rightarrow> frame list \<times> parse_mode" where
  "value_start st (Scalar v) = complete v st"
| "value_start st (Punct c) =
     (if c = CHR ''['' then (ArrayFrame [] # st, ValueOrClose)
      else if c = CHR ''{'' then (ObjectFrame [] None # st, KeyOrClose)
      else ([], Rejected))"

fun key_start :: "frame list \<Rightarrow> token \<Rightarrow> frame list \<times> parse_mode" where
  "key_start (ObjectFrame ms None # st) (Scalar (JString k)) =
     (ObjectFrame ms (Some k) # st, ColonNext)"
| "key_start st tok = ([], Rejected)"

fun close_container :: "frame list \<Rightarrow> token \<Rightarrow> frame list \<times> parse_mode" where
  "close_container (ArrayFrame vs # st) (Punct c) =
     (if c = CHR '']'' then complete (JArray vs) st else ([], Rejected))"
| "close_container (ObjectFrame ms None # st) (Punct c) =
     (if c = CHR ''}'' then complete (JObject ms) st else ([], Rejected))"
| "close_container st tok = ([], Rejected)"

fun parse_step :: "frame list \<times> parse_mode \<Rightarrow> token \<Rightarrow> frame list \<times> parse_mode" where
  "parse_step (st, Value) tok = value_start st tok"
| "parse_step (st, ValueOrClose) tok =
     (if tok = Punct CHR '']'' then close_container st tok else value_start st tok)"
| "parse_step (st, KeyOrClose) tok =
     (if tok = Punct CHR ''}'' then close_container st tok else key_start st tok)"
| "parse_step (st, Key) tok = key_start st tok"
| "parse_step (st, ColonNext) tok =
     (if tok = Punct CHR '':'' then (st, Value) else ([], Rejected))"
| "parse_step (st, CommaOrClose) tok =
     (if tok = Punct CHR '','' then
        (case st of
           ArrayFrame vs # st' \<Rightarrow> (st, Value)
         | ObjectFrame ms k # st' \<Rightarrow> (st, Key)
         | [] \<Rightarrow> ([], Rejected))
      else close_container st tok)"
| "parse_step (st, Done v) tok = ([], Rejected)"
| "parse_step (st, Rejected) tok = ([], Rejected)"

definition parse_tokens :: "token list \<Rightarrow> json option" where
  "parse_tokens toks =
     (case foldl parse_step ([], Value) toks of
        ([], Done v) \<Rightarrow> Some v
      | other \<Rightarrow> None)"

text \<open>\<open>JSON.parse(text)\<close>: the value, or \<open>None\<close> where it throws a \<open>SyntaxError\<close>.\<close>

definition JSON_parse :: "string \<Rightarrow> json option" where
  "JSON_parse s = (case tokenize s of None \<Rightarrow> None | Some toks \<Rightarrow> parse_tokens toks)"

section \<open>The essay grading route\<close>

subsection \<open>Requests, responses and the outside world\<close>

text \<open>
  The body of a request after destructuring: a field that is absent is \<open>None\<close> and takes
  its default. The rubric is a mapping from criterion to description, listed in the order
  \<open>Object.keys\<close> iterates it. Numbers are exact rationals.
\<close>

record grade_request =
  question :: "string option"
  answer :: "string option"
  rubric :: "(string \<times> string) list option"
  max_score :: "rat option"
  bloom_level :: "string option"

text \<open>
  The outside world of one request: the content of the first choice of the chat
  completion for a system message and a prompt (the call can throw, and the content can be
  \<open>null\<close>), and the two conversions of a number to text that the prompt uses, \<open>String(x)\<close>
  and \<open>x.toFixed(1)\<close>.
\<close>

record essay_env =
  chat_completions_create :: "string \<Rightarrow> string \<Rightarrow> js_error + string option"
  number_toString :: "rat \<Rightarrow> string"
  toFixed1 :: "rat \<Rightarrow> string"

datatype essay_body =
    EssayError string
  | EssayErrorDetails string string
  | GradingResult json

datatype essay_response = EssayResponse nat essay_body

subsection \<open>The prompt\<close>

text \<open>Lines 46 and 47: \<open>Object.keys(rubric).length || 4\<close> and \<open>max_score / numCriteria\<close>.\<close>

definition numCriteria :: "(string \<times> string) list \<Rightarrow> nat" where
  "numCriteria rub = (if length (map fst rub) = 0 then 4 else length (map fst rub))"

definition maxPerCriterion :: "rat \<Rightarrow> (string \<times> string) list \<Rightarrow> rat" where
  "maxPerCriterion maxScore rub = maxScore / of_nat (numCriteria rub)"

definition rubricCriteria :: "(string \<times> string) list \<Rightarrow> string" where
  "rubricCriteria rub =
     join newline (map (\<lambda>(criterion, description). ''- '' @ criterion @ '': '' @ description) rub)"

definition breakdown_entry :: "essay_env \<Rightarrow> rat \<Rightarrow> string \<Rightarrow> string" where
  "breakdown_entry env mpc criterion =
     ''\"'' @ criterion @ ''\": { \"score\": <score>, \"max\": '' @ toFixed1 env mpc @
     '', \"comment\": \"<brief comment>\" }''"

definition build_prompt ::
  "essay_env \<Rightarrow> string \<Rightarrow> string \<Rightarrow> (string \<times> string) list \<Rightarrow> rat \<Rightarrow> string \<Rightarrow> string" where
  "build_prompt env q a rub maxScore bloom =
     (let mpc = maxPerCriterion maxScore rub in
      trim (join newline
        ['''',
         ''You are an expert educator evaluating a student's essay response. Grade the essay based on the following criteria and return a JSON response.'',
         '''',
         ''**Question:** '' @ q,
         '''',
         ''**Student's Answer:**'',
         a,
         '''',
         ''**Bloom's Taxonomy Level:** '' @ (if bloom = [] then ''Not specified'' else bloom),
         '''',
         ''**Rubric Criteria ('' @ number_toString env maxScore @ '' points total, '' @
           toFixed1 env mpc @ '' points per criterion):**'',
         rubricCriteria rub,
         '''',
         ''**Instructions:**'',
         ''1. Evaluate the essay against each rubric criterion'',
         ''2. Assign a score for each criterion (0 to '' @ toFixed1 env mpc @ '' points)'',
         ''3. Provide constructive feedback'',
         ''4. Calculate the total score'',
         '''',
         ''**Return ONLY valid JSON in this exact format:**'',
         ''{'',
         ''  \"score\": <total score>,'',
         ''  \"max_score\": '' @ number_toString env maxScore @ '','',
         ''  \"feedback\": \"<overall constructive feedback>\",'',
         ''  \"breakdown\": {'',
         ''    '' @ join ('','' @ newline @ ''    '') (map (breakdown_entry env mpc) (map fst rub)),
         ''  }'',
         ''}'',
         '''',
         ''Ensure scores are realistic and feedback is constructive and encouraging.'',
         '''']))"

definition system_message :: string where
  "system_message =
     ''You are an expert educator who provides fair, constructive feedback on student essays. Always return valid JSON responses.''"

subsection \<open>Cleaning the reply\<close>

text \<open>
  Lines 111 to 114. \<open>.replace(/```(json)?/gi, '')\<close> removes, from left to right, every
  run of three backticks together with a \<open>json\<close> in any case that follows it;
  \<open>.replace(/```/g, '')\<close> then removes the runs of three backticks that are left.
\<close>

fun replace_fence_tags :: "string \<Rightarrow> string" where
  "replace_fence_tags (a # b # c # rest) =
     (if [a, b, c] = ''```'' then
        (if toLowerCase (take 4 rest) = ''json'' then replace_fence_tags (drop 4 rest)
         else replace_fence_tags rest)
      else a # replace_fence_tags (b # c # rest))"
| "replace_fence_tags s = s"

fun replace_fences :: "string \<Rightarrow> string" where
  "replace_fences (a # b # c # rest) =
     (if [a, b, c] = ''```'' then replace_fences rest
      else a # replace_fences (b # c # rest))"
| "replace_fences s = s"

definition clean_response :: "string \<Rightarrow> string" where
  "clean_response rawResponse = trim (replace_fences (replace_fence_tags rawResponse))"

subsection \<open>The handler\<close>

text \<open>
  Reading a property of a parsed value: \<open>undefined\<close> (\<open>None\<close>) when the value is not an
  object or has no such property. \<open>typeof x === 'number'\<close> and the truthiness of \<open>x\<close> follow.
\<close>

fun get_property :: "json \<Rightarrow> nat list \<Rightarrow> json option" where
  "get_property (JObject ms) k = map_of ms k"
| "get_property v k = None"

fun is_number :: "json option \<Rightarrow> bool" where
  "is_number (Some (JNumber r)) = True"
| "is_number x = False"

fun truthy :: "json option \<Rightarrow> bool" where
  "truthy None = False"
| "truthy (Some JNull) = False"
| "truthy (Some (JBool b)) = b"
| "truthy (Some (JNumber r)) = (r \<noteq> 0)"
| "truthy (Some (JString s)) = (s \<noteq> [])"
| "truthy (Some (JArray vs)) = True"
| "truthy (Some (JObject ms)) = True"

definition grading_failed :: "string \<Rightarrow> essay_response" where
  "grading_failed msg = EssayResponse 500 (EssayErrorDetails ''Essay grading failed.'' msg)"

text \<open>Lines 117 to 142: parse the cleaned reply, validate its shape, and answer.\<close>

definition parse_and_validate :: "string \<Rightarrow> essay_response" where
  "parse_and_validate rawResponse =
     (case JSON_parse rawResponse of
        None \<Rightarrow> EssayResponse 500 (EssayErrorDetails ''Failed to parse AI response.'' rawResponse)
      | Some gradingResult \<Rightarrow>
          if gradingResult = JNull then
            grading_failed ''Cannot read properties of null (reading 'score')''
          else if \<not> is_number (get_property gradingResult (units ''score'')) \<or>
                  \<not> truthy (get_property gradingResult (units ''feedback'')) \<or>
                  \<not> truthy (get_property gradingResult (units ''breakdown''))
          then EssayResponse 500 (EssayError ''Invalid grading response structure from AI.'')
          else EssayResponse 200 (GradingResult gradingResult))"

text \<open>The route \<open>POST /grade-essay\<close>.\<close>

definition grade_essay :: "essay_env \<Rightarrow> grade_request \<Rightarrow> essay_response" where
  "grade_essay env req =
     (let rub = (case rubric req of None \<Rightarrow> [] | Some r \<Rightarrow> r);
          maxScore = (case max_score req of None \<Rightarrow> 10 | Some m \<Rightarrow> m);
          bloom = (case bloom_level req of None \<Rightarrow> [] | Some b \<Rightarrow> b);
          q = (case question req of None \<Rightarrow> [] | Some s \<Rightarrow> s);
          a = (case answer req of None \<Rightarrow> [] | Some s \<Rightarrow> s)
      in if q = [] \<or> a = [] then
           EssayResponse 400
             (EssayError ''Missing required fields: question and answer are required.'')
         else if trim a = [] then EssayResponse 400 (EssayError ''Answer cannot be empty.'')
         else
           (case chat_completions_create env system_message (build_prompt env q a rub maxScore bloom) of
              Inl e \<Rightarrow> grading_failed (message e)
            | Inr None \<Rightarrow> grading_failed ''Cannot read properties of null (reading 'trim')''
            | Inr (Some content) \<Rightarrow> parse_and_validate (clean_response (trim content))))"

section \<open>Notions used to state the properties of the OCR route\<close>

text \<open>
  A poll reply that ends neither the loop nor the call: it arrived, and its status is
  neither \<open>succeeded\<close> nor \<open>failed\<close>.
\<close>

definition pending :: "js_error + poll_data \<Rightarrow> bool" where
  "pending r =
     (case r of
        Inl e \<Rightarrow> False
      | Inr d \<Rightarrow> status d \<noteq> ''succeeded'' \<and> status d \<noteq> ''failed'')"

text \<open>The calls of \<open>n\<close> rounds of the poll loop: a wait of one second, then the poll.\<close>

definition poll_calls :: "string \<Rightarrow> nat \<Rightarrow> ocr_call list" where
  "poll_calls loc n = concat (replicate n [Sleep 1000, Poll loc])"

text \<open>
  The deduplication as the specification words it: split on newline, drop the blank
  lines, keep the first occurrence of each line in the order of first appearance, and
  join with newline again. \<open>first_occurrences\<close> keeps the head and removes its later
  copies from the rest.
\<close>

fun first_occurrences :: "'a list \<Rightarrow> 'a list" where
  "first_occurrences [] = []"
| "first_occurrences (x # xs) = x # first_occurrences (filter (\<lambda>y. y \<noteq> x) xs)"

definition dedupe_spec :: "string \<Rightarrow> string" where
  "dedupe_spec t =
     join newline (first_occurrences (filter (\<lambda>l. trim l \<noteq> []) (split CHR 0x0A t)))"

subsection \<open>Example uploads and environments\<close>

definition op_url :: string where
  "op_url = ''https://ocr.example/operations/7''"

definition running :: poll_data where
  "running = \<lparr>status = ''running'', analyzeResult = None\<rparr>"

definition offline_env :: ocr_env where
  "offline_env =
     \<lparr>axios_post = (\<lambda>mimeType body. Inl (Error ''connect ECONNREFUSED'')),
      axios_get = (\<lambda>loc i. Inl (Error ''connect ECONNREFUSED'')),
      pdf = (\<lambda>buf. Inr (Some ''Invoice 42''))\<rparr>"

definition second_poll_env :: ocr_env where
  "second_poll_env =
     \<lparr>axios_post = (\<lambda>mimeType body. Inr (Some op_url)),
      axios_get = (\<lambda>loc i.
        if i = 0 then Inr running
        else Inr \<lparr>status = ''succeeded'',
                  analyzeResult = Some [[''Hello'', ''world''], [''page two'']]\<rparr>),
      pdf = (\<lambda>buf. Inr None)\<rparr>"

definition failing_env :: ocr_env where
  "failing_env =
     \<lparr>axios_post = (\<lambda>mimeType body. Inr (Some op_url)),
      axios_get = (\<lambda>loc i.
        if i < 2 then Inr running else Inr \<lparr>status = ''failed'', analyzeResult = None\<rparr>),
      pdf = (\<lambda>buf. Inr None)\<rparr>"

definition never_ready_env :: ocr_env where
  "never_ready_env =
     \<lparr>axios_post = (\<lambda>mimeType body. Inr (Some op_url)),
      axios_get = (\<lambda>loc i. Inr running),
      pdf = (\<lambda>buf. Inr None)\<rparr>"

definition empty_page_env :: ocr_env where
  "empty_page_env =
     \<lparr>axios_post = (\<lambda>mimeType body. Inr (Some op_url)),
      axios_get = (\<lambda>loc i. Inr \<lparr>status = ''succeeded'', analyzeResult = Some [[]]\<rparr>),
      pdf = (\<lambda>buf. Inr None)\<rparr>"

definition scan_env :: ocr_env where
  "scan_env =
     \<lparr>axios_post = (\<lambda>mimeType body. Inl (Error ''connect ECONNREFUSED'')),
      axios_get = (\<lambda>loc i. Inl (Error ''connect ECONNREFUSED'')),
      pdf = (\<lambda>buf. Inr (Some (newline @ newline)))\<rparr>"

definition gif_file :: uploaded_file where
  "gif_file =
     \<lparr>originalname = ''holiday.photo.GIF'', mimetype = ''image/gif'', buffer = ''GIF89a''\<rparr>"

definition png_file :: uploaded_file where
  "png_file = \<lparr>originalname = ''note.png'', mimetype = ''image/png'', buffer = ''PNG''\<rparr>"

definition pdf_file :: uploaded_file where
  "pdf_file =
     \<lparr>originalname = ''report.PDF'', mimetype = ''application/pdf'', buffer = ''%PDF-1.7''\<rparr>"

definition bare_pdf_file :: uploaded_file where
  "bare_pdf_file =
     \<lparr>originalname = ''pdf'', mimetype = ''application/pdf'', buffer = ''%PDF-1.7''\<rparr>"

definition scanned_text :: string where
  "scanned_text =
     ''Total: 5\<newline>\<newline>Page 1\<newline>Total: 5\<newline>   \<newline>total: 5''"

section \<open>Notions used to state the properties of the grading route\<close>

text \<open>The prompt the handler sends for a request, with the defaults of the absent fields.\<close>

definition request_prompt :: "essay_env \<Rightarrow> grade_request \<Rightarrow> string" where
  "request_prompt env req =
     build_prompt env
       (case question req of None \<Rightarrow> [] | Some s \<Rightarrow> s)
       (case answer req of None \<Rightarrow> [] | Some s \<Rightarrow> s)
       (case rubric req of None \<Rightarrow> [] | Some r \<Rightarrow> r)
       (case max_score req of None \<Rightarrow> 10 | Some m \<Rightarrow> m)
       (case bloom_level req of None \<Rightarrow> [] | Some b \<Rightarrow> b)"

text \<open>
  The invariant of the data model, as the specification words it: the score of a result
  lies between 0 and the maximum, and every entry of its breakdown has the given \<open>max\<close>.
\<close>

definition score_in_range :: "rat \<Rightarrow> json \<Rightarrow> bool" where
  "score_in_range maxScore v =
     (case get_property v (units ''score'') of
        Some (JNumber s) \<Rightarrow> 0 \<le> s \<and> s \<le> maxScore
      | other \<Rightarrow> False)"

definition breakdown_max_is :: "rat \<Rightarrow> json \<Rightarrow> bool" where
  "breakdown_max_is mpc v =
     (case get_property v (units ''breakdown'') of
        Some (JObject entries) \<Rightarrow>
          list_all (\<lambda>(criterion, entry). get_property entry (units ''max'') = Some (JNumber mpc))
            entries
      | other \<Rightarrow> True)"

text \<open>
  A text has a fence when three backticks stand next to each other somewhere in it. A
  payload wrapped in code fences is the opening fence with its tag (none, or \<open>json\<close>), the
  payload on lines of its own, and the closing fence.
\<close>

fun has_fence :: "string \<Rightarrow> bool" where
  "has_fence (a # b # c # rest) = ([a, b, c] = ''```'' \<or> has_fence (b # c # rest))"
| "has_fence s = False"

definition wrap_fence :: "string \<Rightarrow> string \<Rightarrow> string" where
  "wrap_fence tag payload = ''```'' @ tag @ newline @ payload @ newline @ ''```''"

text \<open>
  A state of the lexer from which white space alone never leads to a token list: past an
  error, or inside a string.
\<close>

fun dead :: "token list \<times> lex_mode \<Rightarrow> bool" where
  "dead (toks, Broken) = True"
| "dead (toks, InString s) = True"
| "dead (toks, m) = False"

subsection \<open>Example requests and replies\<close>

text \<open>
  The request of the end-to-end example: one criterion, ten points. The environment
  answers every prompt with the given content and prints the two numbers of that request.
\<close>

definition example_request :: grade_request where
  "example_request =
     \<lparr>question = Some ''What is 2+2?'', answer = Some ''4'',
      rubric = Some [(''accuracy'', ''correctness'')], max_score = Some 10,
      bloom_level = None\<rparr>"

definition reply_env :: "string \<Rightarrow> essay_env" where
  "reply_env content =
     \<lparr>chat_completions_create = (\<lambda>system prompt. Inr (Some content)),
      number_toString = (\<lambda>x. ''10''),
      toFixed1 = (\<lambda>x. ''10.0'')\<rparr>"

definition correct_reply :: string where
  "correct_reply =
     ''{\"score\":10,\"max_score\":10,\"feedback\":\"Correct\",\"breakdown\":{\"accuracy\":{\"score\":10,\"max\":10,\"comment\":\"Correct\"}}}''"

definition correct_result :: json where
  "correct_result =
     JObject
       [(units ''score'', JNumber 10), (units ''max_score'', JNumber 10),
        (units ''feedback'', JString (units ''Correct'')),
        (units ''breakdown'',
         JObject
           [(units ''accuracy'',
             JObject
               [(units ''score'', JNumber 10), (units ''max'', JNumber 10),
                (units ''comment'', JString (units ''Correct''))])])]"

definition inflated_reply :: string where
  "inflated_reply =
     ''{\"score\":999,\"max_score\":10,\"feedback\":\"Great\",\"breakdown\":{\"accuracy\":{\"score\":999,\"max\":7,\"comment\":\"ok\"}}}''"

definition inflated_result :: json where
  "inflated_result =
     JObject
       [(units ''score'', JNumber 999), (units ''max_score'', JNumber 10),
        (units ''feedback'', JString (units ''Great'')),
        (units ''breakdown'',
         JObject
           [(units ''accuracy'',
             JObject
               [(units ''score'', JNumber 999), (units ''max'', JNumber 7),
                (units ''comment'', JString (units ''ok''))])])]"

definition fenced_garbage :: string where
  "fenced_garbage = ''```json'' @ newline @ ''not json'' @ newline @ ''```''"

definition fence_in_feedback :: string where
  "fence_in_feedback = ''{\"score\":1,\"feedback\":\"Wrap code in ```\",\"breakdown\":{}}''"

definition three_criteria :: "(string \<times> string) list" where
  "three_criteria = [(''accuracy'', ''correct''), (''clarity'', ''clear''), (''depth'', ''deep'')]"

section \<open>Properties of the OCR route\<close>

subsection \<open>Strings\<close>

lemma split_not_Nil: "split c s \<noteq> []"
  by (induction s) (auto split: list.splits)

lemma split_no_sep: "c \<notin> set s \<Longrightarrow> split c s = [s]"
  by (induction s) auto

lemma split_append_sep: "split c (pre @ c # suf) = split c pre @ split c suf"
  by (induction pre) (auto split: list.splits simp: split_not_Nil)

lemma split_segments_no_sep: "seg \<in> set (split c s) \<Longrightarrow> c \<notin> set seg"
  by (induction s arbitrary: seg) (auto split: if_splits list.splits)

lemma split_chars: "x \<in> set s \<Longrightarrow> x \<noteq> c \<Longrightarrow> \<exists>seg \<in> set (split c s). x \<in> set seg"
  by (induction s) (auto split: list.splits simp: split_not_Nil)

lemma split_join:
  "xs \<noteq> [] \<Longrightarrow> \<forall>x \<in> set xs. c \<notin> set x \<Longrightarrow> split c (join [c] xs) = xs"
proof (induction "[c]" xs rule: join.induct)
  case 1
  then show ?case by simp
next
  case (2 x)
  then show ?case by (simp add: split_no_sep)
next
  case (3 x y ys)
  then show ?case by (simp add: split_append_sep split_no_sep)
qed

lemma set_join: "x \<in> set xs \<Longrightarrow> set x \<subseteq> set (join sep xs)"
  by (induction sep xs rule: join.induct) auto

lemma trim_Nil_iff: "trim s = [] \<longleftrightarrow> (\<forall>c \<in> set s. is_ws c)"
proof -
  have "dropWhile is_ws s = [] \<longleftrightarrow> (\<forall>c \<in> set s. is_ws c)"
    by (simp add: dropWhile_eq_Nil_conv)
  moreover have "trim s = [] \<longleftrightarrow> dropWhile is_ws s = []"
  proof
    assume t: "trim s = []"
    show "dropWhile is_ws s = []"
    proof (rule ccontr)
      assume ne: "dropWhile is_ws s \<noteq> []"
      then have "\<not> is_ws (hd (dropWhile is_ws s))" by (rule hd_dropWhile)
      moreover have "hd (dropWhile is_ws s) \<in> set (rev (dropWhile is_ws s))"
        using ne by simp
      moreover from t have "\<forall>c \<in> set (rev (dropWhile is_ws s)). is_ws c"
        by (simp add: trim_def dropWhile_eq_Nil_conv)
      ultimately show False by blast
    qed
  next
    assume "dropWhile is_ws s = []"
    then show "trim s = []" by (simp add: trim_def del: dropWhile_eq_Nil_conv)
  qed
  ultimately show ?thesis by simp
qed

lemma last_split: "c \<notin> set suf \<Longrightarrow> last (split c (pre @ c # suf)) = suf"
  by (simp add: split_append_sep split_not_Nil split_no_sep)

lemma file_ext_suffix:
  "CHR ''.'' \<notin> set suf \<Longrightarrow> file_ext (pre @ CHR ''.'' # suf) = toLowerCase suf"
  by (simp add: file_ext_def pop_def split_not_Nil last_split)

lemma file_ext_no_dot:
  "CHR ''.'' \<notin> set name \<Longrightarrow> file_ext name = toLowerCase name"
  by (simp add: file_ext_def pop_def split_no_sep)

lemmas eval_strings =
  file_ext_def pop_def toLowerCase_def lower_char_def trim_def is_ws_def newline_def
  supportedExtensions_def dedupe_lines_def new_Set_def Set_add_def

subsection \<open>Insertion-ordered sets\<close>

lemma set_first_occurrences: "set (first_occurrences xs) = set xs"
  by (induction xs rule: first_occurrences.induct) auto

lemma distinct_first_occurrences: "distinct (first_occurrences xs)"
  by (induction xs rule: first_occurrences.induct) (auto simp: set_first_occurrences)

lemma subseq_first_occurrences: "subseq (first_occurrences xs) xs"
proof (induction xs rule: first_occurrences.induct)
  case 1
  then show ?case by simp
next
  case (2 x xs)
  have "subseq (filter (\<lambda>y. y \<noteq> x) xs) xs" by simp
  with 2 have "subseq (first_occurrences (filter (\<lambda>y. y \<noteq> x) xs)) xs"
    using subseq_order.order_trans by blast
  then show ?case by simp
qed

lemma foldl_Set_add:
  "foldl Set_add acc xs = acc @ first_occurrences (filter (\<lambda>y. y \<notin> set acc) xs)"
proof (induction xs arbitrary: acc)
  case Nil
  then show ?case by simp
next
  case (Cons x xs)
  show ?case
  proof (cases "x \<in> set acc")
    case True
    then have "Set_add acc x = acc" by (simp add: Set_add_def)
    with True show ?thesis by (simp add: Cons.IH)
  next
    case False
    have "filter (\<lambda>y. y \<notin> set (acc @ [x])) xs =
          filter (\<lambda>y. y \<noteq> x) (filter (\<lambda>y. y \<notin> set acc) xs)"
      by (auto intro: filter_cong)
    moreover from False have "Set_add acc x = acc @ [x]" by (simp add: Set_add_def)
    ultimately show ?thesis using False by (simp add: Cons.IH)
  qed
qed

lemma new_Set_first_occurrences: "new_Set xs = first_occurrences xs"
  by (simp add: new_Set_def foldl_Set_add)

subsection \<open>The deduplication of lines\<close>

lemma nonblank_line_exists:
  assumes "trim t \<noteq> []"
  shows "filter (\<lambda>l. trim l \<noteq> []) (split CHR 0x0A t) \<noteq> []"
proof -
  from assms obtain x where x: "x \<in> set t" "\<not> is_ws x" by (auto simp: trim_Nil_iff)
  then have "x \<noteq> CHR 0x0A" by (auto simp: is_ws_def)
  with x obtain seg where "seg \<in> set (split CHR 0x0A t)" "x \<in> set seg"
    using split_chars by blast
  with x have "seg \<in> set (filter (\<lambda>l. trim l \<noteq> []) (split CHR 0x0A t))"
    by (auto simp: trim_Nil_iff)
  then show ?thesis by fastforce
qed

lemma dedupe_lines_nonblank:
  assumes "trim t \<noteq> []"
  shows "trim (dedupe_lines t) \<noteq> []"
proof -
  let ?ls = "filter (\<lambda>l. trim l \<noteq> []) (split CHR 0x0A t)"
  from nonblank_line_exists [OF assms] obtain l where l: "l \<in> set ?ls"
    by (cases ?ls) auto
  then obtain x where x: "x \<in> set l" "\<not> is_ws x" by (auto simp: trim_Nil_iff)
  from l have "l \<in> set (new_Set ?ls)"
    by (simp add: new_Set_first_occurrences set_first_occurrences)
  then have "set l \<subseteq> set (dedupe_lines t)"
    unfolding dedupe_lines_def by (rule set_join)
  with x show ?thesis by (auto simp: trim_Nil_iff)
qed

lemma lines_of_dedupe:
  assumes "trim t \<noteq> []"
  shows "split CHR 0x0A (dedupe_lines t) =
         first_occurrences (filter (\<lambda>l. trim l \<noteq> []) (split CHR 0x0A t))"
proof -
  let ?ls = "first_occurrences (filter (\<lambda>l. trim l \<noteq> []) (split CHR 0x0A t))"
  have "?ls \<noteq> []"
    using nonblank_line_exists [OF assms] set_first_occurrences [of "filter (\<lambda>l. trim l \<noteq> []) (split CHR 0x0A t)"]
    by (metis set_empty)
  moreover have "\<forall>l \<in> set ?ls. CHR 0x0A \<notin> set l"
    by (auto simp: set_first_occurrences dest: split_segments_no_sep)
  ultimately show ?thesis
    by (simp add: dedupe_lines_def new_Set_first_occurrences newline_def split_join)
qed

subsection \<open>The poll loop\<close>

declare poll_loop.simps [simp del]

lemma poll_calls_Suc: "poll_calls loc (Suc n) = Sleep 1000 # Poll loc # poll_calls loc n"
  by (simp add: poll_calls_def)

lemma poll_loop_pending:
  "i < 15 \<Longrightarrow> pending (axios_get env loc i) \<Longrightarrow>
   poll_loop env loc i =
     (fst (poll_loop env loc (Suc i)), Sleep 1000 # Poll loc # snd (poll_loop env loc (Suc i)))"
  by (subst poll_loop.simps) (auto simp: pending_def split: sum.splits prod.splits)

lemma poll_loop_skip:
  "k \<le> 15 \<Longrightarrow> \<forall>j<k. i \<le> j \<longrightarrow> pending (axios_get env loc j) \<Longrightarrow> i \<le> k \<Longrightarrow>
   poll_loop env loc i =
     (fst (poll_loop env loc k), poll_calls loc (k - i) @ snd (poll_loop env loc k))"
proof (induction "k - i" arbitrary: i)
  case 0
  then show ?case by (simp add: poll_calls_def)
next
  case (Suc n)
  then have lt: "i < k" and p: "pending (axios_get env loc i)" by auto
  have "poll_loop env loc (Suc i) =
     (fst (poll_loop env loc k), poll_calls loc (k - Suc i) @ snd (poll_loop env loc k))"
    using Suc by (intro Suc.hyps(1)) auto
  moreover have "k - i = Suc (k - Suc i)" using lt by simp
  ultimately show ?case
    using poll_loop_pending [of i env loc] lt p Suc.prems(1)
    by (simp add: poll_calls_Suc)
qed

lemma poll_loop_succeeded:
  "i < 15 \<Longrightarrow> axios_get env loc i = Inr d \<Longrightarrow> status d = ''succeeded'' \<Longrightarrow>
   analyzeResult d = Some pages \<Longrightarrow>
   poll_loop env loc i = (Inr (join newline (concat pages)), [Sleep 1000, Poll loc])"
  by (subst poll_loop.simps) simp

lemma poll_loop_failed:
  "i < 15 \<Longrightarrow> axios_get env loc i = Inr d \<Longrightarrow> status d = ''failed'' \<Longrightarrow>
   poll_loop env loc i = (Inl (Error ''Azure OCR failed''), [Sleep 1000, Poll loc])"
  by (subst poll_loop.simps) simp

lemma poll_loop_timeout: "poll_loop env loc 15 = (Inl (Error ''OCR timeout''), [])"
  by (subst poll_loop.simps) simp

lemma poll_loop_calls:
  "\<exists>n. n \<le> 15 - i \<and> snd (poll_loop env loc i) = poll_calls loc n"
proof (induction env loc i rule: poll_loop.induct)
  case (1 env loc i)
  show ?case
  proof (cases "i < 15 \<and> pending (axios_get env loc i)")
    case True
    then obtain d where d: "axios_get env loc i = Inr d" "status d \<noteq> ''succeeded''"
        "status d \<noteq> ''failed''"
      by (auto simp: pending_def split: sum.splits)
    with True 1 obtain n where n: "n \<le> 15 - Suc i" "snd (poll_loop env loc (Suc i)) = poll_calls loc n"
      by blast
    have "snd (poll_loop env loc i) = poll_calls loc (Suc n)"
      using poll_loop_pending [of i env loc] True n by (simp add: poll_calls_Suc)
    moreover have "Suc n \<le> 15 - i" using n True by auto
    ultimately show ?thesis by blast
  next
    case False
    show ?thesis
    proof (cases "i < 15")
      case True
      with False have "snd (poll_loop env loc i) = poll_calls loc 1"
        by (subst poll_loop.simps)
           (auto simp: pending_def poll_calls_def split: sum.splits option.splits)
      then show ?thesis using True by (intro exI [of _ 1]) simp
    next
      case False
      then have "snd (poll_loop env loc i) = poll_calls loc 0"
        by (subst poll_loop.simps) (simp add: poll_calls_def)
      then show ?thesis by blast
    qed
  qed
qed

subsection \<open>The file type gate\<close>

text \<open>
  Claim C1. An upload whose extension is none of \<open>jpg\<close>, \<open>jpeg\<close>, \<open>png\<close> and \<open>pdf\<close>
  is answered 400 with the "unsupported type" message, and no call is made to the OCR
  service: the list of calls is empty. The extension \<open>file_ext\<close> of a name with a dot is
  the lowercased text after its last dot.
\<close>

theorem unsupported_extension_rejected:
  "(file_ext (originalname file) \<notin> {''jpg'', ''jpeg'', ''png'', ''pdf''} \<longrightarrow>
      ocr_route env (Some file) =
        (Response 400
           (ErrorBody ''Only .jpg, .jpeg, .png images or .pdf documents are supported''), [])) \<and>
   (CHR ''.'' \<notin> set suf \<longrightarrow> file_ext (pre @ CHR ''.'' # suf) = toLowerCase suf)"
  by (simp add: ocr_route_def supportedExtensions_def unsupported_response_def file_ext_suffix)

theorem unsupported_extension_rejected_witness:
  "file_ext (originalname gif_file) = ''gif'' \<and>
   ocr_route second_poll_env (Some gif_file) =
     (Response 400
        (ErrorBody ''Only .jpg, .jpeg, .png images or .pdf documents are supported''), []) \<and>
   file_ext (''holiday.photo'' @ CHR ''.'' # ''GIF'') = toLowerCase ''GIF''"
  using unsupported_extension_rejected [of gif_file second_poll_env "''GIF''" "''holiday.photo''"]
  by (simp add: gif_file_def eval_strings)

text \<open>
  Claim C10. A name without a dot is its own extension, lowercased: an upload named
  \<open>pdf\<close> takes the PDF path, and one named \<open>jpg\<close>, \<open>jpeg\<close> or \<open>png\<close> the image path;
  none of them is rejected by the gate.
\<close>

theorem filename_without_dot_is_its_own_extension:
  assumes "CHR ''.'' \<notin> set (originalname file)"
  shows "file_ext (originalname file) = toLowerCase (originalname file) \<and>
    (toLowerCase (originalname file) = ''pdf'' \<longrightarrow>
       ocr_route env (Some file) = handle_pdf env file) \<and>
    (toLowerCase (originalname file) \<in> {''jpg'', ''jpeg'', ''png''} \<longrightarrow>
       ocr_route env (Some file) = handle_image env file)"
  using assms by (auto simp: file_ext_no_dot ocr_route_def supportedExtensions_def)

theorem filename_without_dot_is_its_own_extension_witness:
  "CHR ''.'' \<notin> set (originalname bare_pdf_file) \<and>
   file_ext (originalname bare_pdf_file) = ''pdf'' \<and>
   ocr_route offline_env (Some bare_pdf_file) = handle_pdf offline_env bare_pdf_file \<and>
   handle_pdf offline_env bare_pdf_file =
     (Response 200 (TextBody ''Invoice 42''), [Submit ''application/pdf'' ''%PDF-1.7''])"
proof -
  have a: "CHR ''.'' \<notin> set (originalname bare_pdf_file)" by (simp add: bare_pdf_file_def)
  have b: "toLowerCase (originalname bare_pdf_file) = ''pdf''"
    by (simp add: bare_pdf_file_def eval_strings)
  have c: "handle_pdf offline_env bare_pdf_file =
     (Response 200 (TextBody ''Invoice 42''), [Submit ''application/pdf'' ''%PDF-1.7''])"
    by (simp add: handle_pdf_def offline_env_def processImageWithOCR_def bare_pdf_file_def
        eval_strings)
  from filename_without_dot_is_its_own_extension [OF a, of offline_env] a b c show ?thesis
    by simp
qed

subsection \<open>The OCR client\<close>

text \<open>
  Claim C2. After a submission that returned a location, \<open>processImageWithOCR\<close> makes
  at most 15 polls of that location, each after a wait of 1000 ms. When the polls before
  the \<open>k\<close>-th are pending and the \<open>k\<close>-th reports \<open>succeeded\<close> with its pages, the result
  is the lines of all pages, in page order and then line order, joined by newline; when
  it reports \<open>failed\<close>, the call throws \<open>Azure OCR failed\<close>; when all 15 polls are
  pending, it throws \<open>OCR timeout\<close>.
\<close>

theorem extractText_poll_protocol:
  assumes "axios_post env mimeType imageBuffer = Inr (Some loc)" and "loc \<noteq> []"
  shows
   "(\<exists>n\<le>15. snd (processImageWithOCR env imageBuffer mimeType) =
        Submit mimeType imageBuffer # poll_calls loc n) \<and>
    (k < 15 \<and> (\<forall>j<k. pending (axios_get env loc j)) \<and> axios_get env loc k = Inr d \<and>
       status d = ''succeeded'' \<and> analyzeResult d = Some pages \<longrightarrow>
       processImageWithOCR env imageBuffer mimeType =
         (Inr (join newline (concat pages)),
          Submit mimeType imageBuffer # poll_calls loc (Suc k))) \<and>
    (k < 15 \<and> (\<forall>j<k. pending (axios_get env loc j)) \<and> axios_get env loc k = Inr d \<and>
       status d = ''failed'' \<longrightarrow>
       processImageWithOCR env imageBuffer mimeType =
         (Inl (Error ''Azure OCR failed''),
          Submit mimeType imageBuffer # poll_calls loc (Suc k))) \<and>
    ((\<forall>j<15. pending (axios_get env loc j)) \<longrightarrow>
       processImageWithOCR env imageBuffer mimeType =
         (Inl (Error ''OCR timeout''), Submit mimeType imageBuffer # poll_calls loc 15))"
proof -
  have run: "processImageWithOCR env imageBuffer mimeType =
      (fst (poll_loop env loc 0), Submit mimeType imageBuffer # snd (poll_loop env loc 0))"
    using assms by (simp add: processImageWithOCR_def split: prod.splits)
  have skip: "poll_loop env loc 0 =
      (fst (poll_loop env loc m), poll_calls loc m @ snd (poll_loop env loc m))"
    if "m \<le> 15" "\<forall>j<m. pending (axios_get env loc j)" for m
    using poll_loop_skip [of m 0 env loc] that by simp
  have one: "poll_calls loc m @ [Sleep 1000, Poll loc] = poll_calls loc (Suc m)" for m
    by (induction m) (simp_all add: poll_calls_def)
  have a: "\<exists>n\<le>15. snd (processImageWithOCR env imageBuffer mimeType) =
        Submit mimeType imageBuffer # poll_calls loc n"
    using poll_loop_calls [of 0 env loc] by (auto simp: run)
  have b: "processImageWithOCR env imageBuffer mimeType =
         (Inr (join newline (concat pages)),
          Submit mimeType imageBuffer # poll_calls loc (Suc k))"
    if "k < 15" "\<forall>j<k. pending (axios_get env loc j)" "axios_get env loc k = Inr d"
       "status d = ''succeeded''" "analyzeResult d = Some pages"
    using skip [of k] that poll_loop_succeeded [of k env loc d pages] by (simp add: run one)
  have c: "processImageWithOCR env imageBuffer mimeType =
         (Inl (Error ''Azure OCR failed''),
          Submit mimeType imageBuffer # poll_calls loc (Suc k))"
    if "k < 15" "\<forall>j<k. pending (axios_get env loc j)" "axios_get env loc k = Inr d"
       "status d = ''failed''"
    using skip [of k] that poll_loop_failed [of k env loc d] by (simp add: run one)
  have d: "processImageWithOCR env imageBuffer mimeType =
         (Inl (Error ''OCR timeout''), Submit mimeType imageBuffer # poll_calls loc 15)"
    if "\<forall>j<15. pending (axios_get env loc j)"
    using skip [of 15] that poll_loop_timeout [of env loc] by (simp add: run)
  from a b c d show ?thesis by blast
qed

theorem extractText_poll_protocol_witness:
  "processImageWithOCR second_poll_env ''PNG'' ''image/png'' =
     (Inr ''Hello\<newline>world\<newline>page two'',
      [Submit ''image/png'' ''PNG'', Sleep 1000, Poll op_url, Sleep 1000, Poll op_url]) \<and>
   processImageWithOCR failing_env ''PNG'' ''image/png'' =
     (Inl (Error ''Azure OCR failed''),
      [Submit ''image/png'' ''PNG'', Sleep 1000, Poll op_url, Sleep 1000, Poll op_url,
       Sleep 1000, Poll op_url]) \<and>
   processImageWithOCR never_ready_env ''PNG'' ''image/png'' =
     (Inl (Error ''OCR timeout''), Submit ''image/png'' ''PNG'' # poll_calls op_url 15)"
proof -
  have ne: "op_url \<noteq> []" by (simp add: op_url_def)
  have p1: "axios_post second_poll_env ''image/png'' ''PNG'' = Inr (Some op_url)"
    by (simp add: second_poll_env_def)
  have p2: "axios_post failing_env ''image/png'' ''PNG'' = Inr (Some op_url)"
    by (simp add: failing_env_def)
  have p3: "axios_post never_ready_env ''image/png'' ''PNG'' = Inr (Some op_url)"
    by (simp add: never_ready_env_def)
  have a: "processImageWithOCR second_poll_env ''PNG'' ''image/png'' =
     (Inr ''Hello\<newline>world\<newline>page two'',
      [Submit ''image/png'' ''PNG'', Sleep 1000, Poll op_url, Sleep 1000, Poll op_url])"
    using extractText_poll_protocol [OF p1 ne, of 1
        "\<lparr>status = ''succeeded'', analyzeResult = Some [[''Hello'', ''world''], [''page two'']]\<rparr>"
        "[[''Hello'', ''world''], [''page two'']]"]
    by (simp add: second_poll_env_def pending_def running_def poll_calls_def newline_def)
  have b: "processImageWithOCR failing_env ''PNG'' ''image/png'' =
     (Inl (Error ''Azure OCR failed''),
      [Submit ''image/png'' ''PNG'', Sleep 1000, Poll op_url, Sleep 1000, Poll op_url,
       Sleep 1000, Poll op_url])"
    using extractText_poll_protocol [OF p2 ne, of 2
        "\<lparr>status = ''failed'', analyzeResult = None\<rparr>"]
    by (simp add: failing_env_def pending_def running_def poll_calls_def numeral_3_eq_3)
  have c: "processImageWithOCR never_ready_env ''PNG'' ''image/png'' =
     (Inl (Error ''OCR timeout''), Submit ''image/png'' ''PNG'' # poll_calls op_url 15)"
    using extractText_poll_protocol [OF p3 ne]
    by (simp add: never_ready_env_def pending_def running_def)
  from a b c show ?thesis by simp
qed

subsection \<open>The PDF path\<close>

text \<open>
  Claim C3, as amended. For a PDF whose text layer is not blank (it has a character
  that is not white space), a failing OCR call is not surfaced: the response is 200 and
  its text is the deduplicated text layer.
\<close>

theorem pdf_ocr_failure_falls_back_to_text_layer:
  assumes "file_ext (originalname file) = ''pdf''"
    and "pdf env (buffer file) = Inr (Some t)"
    and "trim t \<noteq> []"
    and "fst (processImageWithOCR env (buffer file) ''application/pdf'') = Inl e"
  shows "fst (ocr_route env (Some file)) = Response 200 (TextBody (dedupe_lines t))"
proof -
  from assms(3) have "t \<noteq> []" by (auto simp: trim_def)
  with assms show ?thesis
    by (auto simp: ocr_route_def supportedExtensions_def handle_pdf_def split: prod.splits)
qed

theorem pdf_ocr_failure_falls_back_to_text_layer_witness:
  "file_ext (originalname pdf_file) = ''pdf'' \<and>
   pdf offline_env (buffer pdf_file) = Inr (Some ''Invoice 42'') \<and>
   trim ''Invoice 42'' = ''Invoice 42'' \<and>
   fst (processImageWithOCR offline_env (buffer pdf_file) ''application/pdf'') =
     Inl (Error ''connect ECONNREFUSED'') \<and>
   fst (ocr_route offline_env (Some pdf_file)) = Response 200 (TextBody ''Invoice 42'')"
proof -
  have a: "file_ext (originalname pdf_file) = ''pdf''"
    by (simp add: pdf_file_def eval_strings)
  have b: "pdf offline_env (buffer pdf_file) = Inr (Some ''Invoice 42'')"
    by (simp add: offline_env_def)
  have c: "trim ''Invoice 42'' = ''Invoice 42''"
    by (simp add: eval_strings)
  have c': "trim ''Invoice 42'' \<noteq> []" by (simp add: c)
  have d: "fst (processImageWithOCR offline_env (buffer pdf_file) ''application/pdf'') =
     Inl (Error ''connect ECONNREFUSED'')"
    by (simp add: processImageWithOCR_def offline_env_def)
  have e: "dedupe_lines ''Invoice 42'' = ''Invoice 42''"
    by (simp add: eval_strings)
  from pdf_ocr_failure_falls_back_to_text_layer [OF a b c' d] a b c d e show ?thesis
    by simp
qed

text \<open>
  Claim C3 as stated asks only for a non-empty text layer. A text layer of two newlines
  is not empty, and with a failing OCR call the handler answers 400: the guard before the
  deduplication rejects a text that is blank.
\<close>

theorem blank_text_layer_counterexample:
  "file_ext (originalname pdf_file) = ''pdf'' \<and>
   pdf scan_env (buffer pdf_file) = Inr (Some (newline @ newline)) \<and>
   newline @ newline \<noteq> [] \<and>
   fst (processImageWithOCR scan_env (buffer pdf_file) ''application/pdf'') =
     Inl (Error ''connect ECONNREFUSED'') \<and>
   fst (ocr_route scan_env (Some pdf_file)) =
     Response 400
       (ErrorBody ''No text found in PDF. The PDF may be empty or contain unsupported content.'')"
  by (simp add: pdf_file_def scan_env_def processImageWithOCR_def ocr_route_def handle_pdf_def
      eval_strings)

text \<open>
  Claim C4. The deduplication of the handler is the one the specification words:
  \<open>dedupe_lines\<close> and \<open>dedupe_spec\<close> agree on every text. For a text that is not blank (the
  handler deduplicates no other), the lines of the output are the first occurrences of the
  non-blank lines of the input: they are distinct, none is blank, and they stand in the
  order of the input.
\<close>

theorem dedupe_lines_first_occurrences:
  "dedupe_lines t = dedupe_spec t \<and>
   (trim t \<noteq> [] \<longrightarrow>
      split CHR 0x0A (dedupe_lines t) =
        first_occurrences (filter (\<lambda>l. trim l \<noteq> []) (split CHR 0x0A t)) \<and>
      distinct (split CHR 0x0A (dedupe_lines t)) \<and>
      (\<forall>l \<in> set (split CHR 0x0A (dedupe_lines t)). trim l \<noteq> []) \<and>
      subseq (split CHR 0x0A (dedupe_lines t)) (split CHR 0x0A t))"
proof -
  let ?ls = "filter (\<lambda>l. trim l \<noteq> []) (split CHR 0x0A t)"
  have eq: "dedupe_lines t = dedupe_spec t"
    by (simp add: dedupe_lines_def dedupe_spec_def new_Set_first_occurrences)
  have sub: "subseq (first_occurrences ?ls) (split CHR 0x0A t)"
    using subseq_first_occurrences [of ?ls]
      subseq_filter_left [of "\<lambda>l. trim l \<noteq> []" "split CHR 0x0A t"]
      subseq_order.order_trans by blast
  have nb: "\<forall>l \<in> set (first_occurrences ?ls). trim l \<noteq> []"
    by (simp add: set_first_occurrences)
  have "split CHR 0x0A (dedupe_lines t) = first_occurrences ?ls" if "trim t \<noteq> []"
    using that by (rule lines_of_dedupe)
  with eq sub nb distinct_first_occurrences [of ?ls] show ?thesis
    by metis
qed

theorem dedupe_lines_first_occurrences_witness:
  "trim scanned_text = scanned_text \<and>
   split CHR 0x0A scanned_text =
     [''Total: 5'', '''', ''Page 1'', ''Total: 5'', ''   '', ''total: 5''] \<and>
   dedupe_lines scanned_text = ''Total: 5\<newline>Page 1\<newline>total: 5'' \<and>
   split CHR 0x0A (dedupe_lines scanned_text) = [''Total: 5'', ''Page 1'', ''total: 5''] \<and>
   distinct (split CHR 0x0A (dedupe_lines scanned_text))"
proof -
  let ?kept = "first_occurrences (filter (\<lambda>l. trim l \<noteq> []) (split CHR 0x0A scanned_text))"
  have a: "trim scanned_text = scanned_text"
    by (simp add: scanned_text_def trim_def is_ws_def)
  have b: "split CHR 0x0A scanned_text =
      [''Total: 5'', '''', ''Page 1'', ''Total: 5'', ''   '', ''total: 5'']"
    by (simp add: scanned_text_def)
  have ne: "trim scanned_text \<noteq> []"
    by (simp add: a) (simp add: scanned_text_def)
  have kept: "?kept = [''Total: 5'', ''Page 1'', ''total: 5'']"
    by (simp add: b trim_def is_ws_def)
  have c: "dedupe_spec scanned_text = ''Total: 5\<newline>Page 1\<newline>total: 5''"
    by (simp add: dedupe_spec_def kept newline_def)
  from dedupe_lines_first_occurrences [of scanned_text] ne
  have "dedupe_lines scanned_text = dedupe_spec scanned_text"
    and "split CHR 0x0A (dedupe_lines scanned_text) = ?kept"
    and "distinct (split CHR 0x0A (dedupe_lines scanned_text))"
    by blast+
  with a b c kept show ?thesis by simp
qed

subsection \<open>Success responses\<close>

lemma handle_pdf_success:
  "fst (handle_pdf env file) = Response 200 b \<Longrightarrow> \<exists>t. b = TextBody t \<and> trim t \<noteq> []"
  by (auto simp: handle_pdf_def extraction_failed_def Let_def dedupe_lines_nonblank
      split: sum.splits prod.splits if_splits)

lemma handle_image_success:
  "fst (handle_image env file) = Response 200 b \<Longrightarrow> \<exists>t. b = TextBody t \<and> trim t \<noteq> []"
  by (auto simp: handle_image_def extraction_failed_def split: sum.splits prod.splits if_splits)

text \<open>
  Claim C9. A 200 response of the OCR route carries a text that is not blank. On the image
  path a blank OCR result is answered 400; on the PDF path a blank text layer together
  with a failed or blank OCR result is answered 400.
\<close>

theorem ocr_success_text_not_blank:
  "(fst (ocr_route env req_file) = Response 200 b \<longrightarrow> (\<exists>t. b = TextBody t \<and> trim t \<noteq> [])) \<and>
   (file_ext (originalname upload) \<in> {''jpg'', ''jpeg'', ''png''} \<and>
    fst (processImageWithOCR env (buffer upload) (mimetype upload)) = Inr ocrText \<and>
    trim ocrText = [] \<longrightarrow>
      fst (ocr_route env (Some upload)) =
        Response 400
          (ErrorBody
             ''No text found in image. Please ensure the image contains clear, readable text.'')) \<and>
   (file_ext (originalname upload) = ''pdf'' \<and>
    pdf env (buffer upload) = Inr pdfText \<and>
    trim (case pdfText of None \<Rightarrow> [] | Some t \<Rightarrow> t) = [] \<and>
    (case fst (processImageWithOCR env (buffer upload) ''application/pdf'') of
       Inl e \<Rightarrow> True
     | Inr t \<Rightarrow> trim t = []) \<longrightarrow>
      fst (ocr_route env (Some upload)) =
        Response 400
          (ErrorBody
             ''No text found in PDF. The PDF may be empty or contain unsupported content.''))"
proof -
  have a: "\<exists>t. b = TextBody t \<and> trim t \<noteq> []" if "fst (ocr_route env req_file) = Response 200 b"
    using that
    by (auto simp: ocr_route_def unsupported_response_def Let_def
        dest: handle_pdf_success handle_image_success split: option.splits if_splits)
  have i: "fst (ocr_route env (Some upload)) =
        Response 400
          (ErrorBody
             ''No text found in image. Please ensure the image contains clear, readable text.'')"
    if "file_ext (originalname upload) \<in> {''jpg'', ''jpeg'', ''png''}"
      and "fst (processImageWithOCR env (buffer upload) (mimetype upload)) = Inr ocrText"
      and "trim ocrText = []"
    using that
    by (auto simp: ocr_route_def supportedExtensions_def handle_image_def split: prod.splits)
  have p: "fst (ocr_route env (Some upload)) =
        Response 400
          (ErrorBody
             ''No text found in PDF. The PDF may be empty or contain unsupported content.'')"
    if "file_ext (originalname upload) = ''pdf''"
      and "pdf env (buffer upload) = Inr pdfText"
      and "trim (case pdfText of None \<Rightarrow> [] | Some t \<Rightarrow> t) = []"
      and "case fst (processImageWithOCR env (buffer upload) ''application/pdf'') of
             Inl e \<Rightarrow> True
           | Inr t \<Rightarrow> trim t = []"
    using that
    by (auto simp: ocr_route_def supportedExtensions_def handle_pdf_def Let_def
        split: prod.splits sum.splits)
  from a i p show ?thesis by blast
qed

theorem ocr_success_text_not_blank_witness:
  "fst (ocr_route second_poll_env (Some png_file)) =
     Response 200 (TextBody ''Hello\<newline>world\<newline>page two'') \<and>
   trim ''Hello\<newline>world\<newline>page two'' = ''Hello\<newline>world\<newline>page two'' \<and>
   fst (processImageWithOCR empty_page_env (buffer png_file) (mimetype png_file)) = Inr [] \<and>
   fst (ocr_route empty_page_env (Some png_file)) =
     Response 400
       (ErrorBody
          ''No text found in image. Please ensure the image contains clear, readable text.'') \<and>
   pdf scan_env (buffer pdf_file) = Inr (Some (newline @ newline)) \<and>
   fst (ocr_route scan_env (Some pdf_file)) =
     Response 400
       (ErrorBody ''No text found in PDF. The PDF may be empty or contain unsupported content.'')"
proof -
  have a: "processImageWithOCR second_poll_env ''PNG'' ''image/png'' =
     (Inr ''Hello\<newline>world\<newline>page two'',
      [Submit ''image/png'' ''PNG'', Sleep 1000, Poll op_url, Sleep 1000, Poll op_url])"
    by (simp add: processImageWithOCR_def second_poll_env_def op_url_def running_def newline_def
        poll_loop.simps [of _ _ 0] poll_loop.simps [of _ _ "Suc 0"])
  have b: "fst (ocr_route second_poll_env (Some png_file)) =
     Response 200 (TextBody ''Hello\<newline>world\<newline>page two'')"
    by (simp add: ocr_route_def handle_image_def png_file_def a eval_strings)
  have c: "trim ''Hello\<newline>world\<newline>page two'' = ''Hello\<newline>world\<newline>page two''"
    by (simp add: eval_strings)
  have png: "file_ext (originalname png_file) \<in> {''jpg'', ''jpeg'', ''png''}"
    by (simp add: png_file_def eval_strings)
  have d: "fst (processImageWithOCR empty_page_env (buffer png_file) (mimetype png_file)) = Inr []"
    by (simp add: processImageWithOCR_def empty_page_env_def op_url_def png_file_def newline_def
        poll_loop.simps [of _ _ 0])
  have t: "trim [] = []" by (simp add: trim_def)
  have pdf: "file_ext (originalname pdf_file) = ''pdf''"
    by (simp add: pdf_file_def eval_strings)
  have e: "pdf scan_env (buffer pdf_file) = Inr (Some (newline @ newline))"
    by (simp add: scan_env_def)
  have f: "trim (case Some (newline @ newline) of None \<Rightarrow> [] | Some t \<Rightarrow> t) = []"
    by (simp add: eval_strings)
  have g: "case fst (processImageWithOCR scan_env (buffer pdf_file) ''application/pdf'') of
             Inl e \<Rightarrow> True
           | Inr t \<Rightarrow> trim t = []"
    by (simp add: processImageWithOCR_def scan_env_def)
  from ocr_success_text_not_blank
    [where env = second_poll_env and req_file = "Some png_file"
       and b = "TextBody ''Hello\<newline>world\<newline>page two''"] b
  have "\<exists>t. TextBody ''Hello\<newline>world\<newline>page two'' = TextBody t \<and> trim t \<noteq> []"
    by blast
  moreover from ocr_success_text_not_blank
    [where env = empty_page_env and upload = png_file and ocrText = "[]"] png d t
  have "fst (ocr_route empty_page_env (Some png_file)) =
     Response 400
       (ErrorBody
          ''No text found in image. Please ensure the image contains clear, readable text.'')"
    by blast
  moreover from ocr_success_text_not_blank
    [where env = scan_env and upload = pdf_file and pdfText = "Some (newline @ newline)"]
    pdf e f g
  have "fst (ocr_route scan_env (Some pdf_file)) =
     Response 400
       (ErrorBody ''No text found in PDF. The PDF may be empty or contain unsupported content.'')"
    by blast
  ultimately show ?thesis using b c d e by simp
qed

section \<open>Properties of the grading route\<close>

subsection \<open>Evaluation of examples\<close>

lemmas json_eval =
  JSON_parse_def tokenize_def parse_tokens_def start_token_def atom_value_def number_value_def
  exponent_value_def scale10_def digits_value_def digit_value_def hex_value_def is_digit_def
  escape_unit_def is_json_ws_def is_atom_char_def is_control_def

text \<open>
  The model of \<open>JSON.parse\<close> on some texts: white space around tokens, numbers with
  fraction and exponent, escapes and repeated keys are accepted; the empty text, trailing
  commas, leading zeros, a bare dot or plus sign, names in upper case, missing commas, two
  values, unquoted keys and a vertical tab between tokens are rejected.
\<close>

lemma JSON_parse_accepts:
  "JSON_parse '' [1.5e+3, -0.25, true, null, \"a b\"] '' =
     Some (JArray [JNumber 1500, JNumber (- 1 / 4), JBool True, JNull, JString (units ''a b'')])"
  "JSON_parse ''{\"a\":1,\"b\":{},\"a\":[]}'' =
     Some (JObject [(units ''a'', JArray []), (units ''b'', JObject [])])"
  "JSON_parse (''\"'' @ [CHR 0x5C] @ ''u0041'' @ [CHR 0x5C] @ ''n\"'') = Some (JString [65, 10])"
  by (simp_all add: json_eval units_def)

lemma JSON_parse_rejects:
  "JSON_parse '''' = None"
  "JSON_parse ''[1,]'' = None"
  "JSON_parse ''{\"a\":1,}'' = None"
  "JSON_parse ''01'' = None"
  "JSON_parse ''1.'' = None"
  "JSON_parse ''+1'' = None"
  "JSON_parse ''True'' = None"
  "JSON_parse ''[1 2]'' = None"
  "JSON_parse ''{} {}'' = None"
  "JSON_parse ''{a:1}'' = None"
  "JSON_parse (''[1,'' @ [CHR 0x0B] @ ''2]'') = None"
  by (simp_all add: json_eval)

lemma correct_parse: "JSON_parse correct_reply = Some correct_result"
  by (simp add: correct_reply_def correct_result_def json_eval units_def)

lemma correct_clean: "clean_response (trim correct_reply) = correct_reply"
  by (simp add: correct_reply_def clean_response_def trim_def is_ws_def)

lemma correct_response:
  "grade_essay (reply_env correct_reply) example_request =
     EssayResponse 200 (GradingResult correct_result)"
proof -
  have "parse_and_validate correct_reply = EssayResponse 200 (GradingResult correct_result)"
    by (simp add: parse_and_validate_def correct_parse) (simp add: correct_result_def units_def)
  moreover have "trim ''4'' \<noteq> []" by (simp add: trim_def is_ws_def)
  ultimately show ?thesis
    by (simp add: grade_essay_def example_request_def reply_env_def correct_clean)
qed

lemma inflated_parse: "JSON_parse inflated_reply = Some inflated_result"
  by (simp add: inflated_reply_def inflated_result_def json_eval units_def)

lemma inflated_clean: "clean_response (trim inflated_reply) = inflated_reply"
  by (simp add: inflated_reply_def clean_response_def trim_def is_ws_def)

lemma inflated_response:
  "grade_essay (reply_env inflated_reply) example_request =
     EssayResponse 200 (GradingResult inflated_result)"
proof -
  have "parse_and_validate inflated_reply = EssayResponse 200 (GradingResult inflated_result)"
    by (simp add: parse_and_validate_def inflated_parse) (simp add: inflated_result_def units_def)
  moreover have "trim ''4'' \<noteq> []" by (simp add: trim_def is_ws_def)
  ultimately show ?thesis
    by (simp add: grade_essay_def example_request_def reply_env_def inflated_clean)
qed

lemma fenced_garbage_clean: "clean_response (trim fenced_garbage) = ''not json''"
  by (simp add: fenced_garbage_def newline_def clean_response_def trim_def is_ws_def
      toLowerCase_def lower_char_def)

lemma not_json: "JSON_parse ''not json'' = None"
  by (simp add: json_eval)

lemma example_request_fields:
  "question example_request = Some ''What is 2+2?''"
  "answer example_request = Some ''4''"
  "trim ''4'' \<noteq> []"
  by (simp_all add: example_request_def trim_def is_ws_def)

subsection \<open>The prompt builder\<close>

text \<open>
  Claim C6. For a rubric with \<open>k\<close> keys, \<open>k\<close> at least 1, the prompt builder computes
  \<open>maxPerCriterion\<close> as the maximum score divided by \<open>k\<close>; for an empty rubric it divides
  by 4. The division is the exact one.
\<close>

theorem maxPerCriterion_equal_shares:
  "(length (map fst rub) = k \<and> 1 \<le> k \<longrightarrow> maxPerCriterion maxScore rub = maxScore / of_nat k) \<and>
   (map fst rub = [] \<longrightarrow> maxPerCriterion maxScore rub = maxScore / 4)"
  by (auto simp: maxPerCriterion_def numCriteria_def)

theorem maxPerCriterion_equal_shares_witness:
  "length (map fst three_criteria) = 3 \<and>
   maxPerCriterion 10 three_criteria = 10 / 3 \<and>
   maxPerCriterion 10 [] = 5 / 2"
  using maxPerCriterion_equal_shares [of three_criteria 3 10]
    maxPerCriterion_equal_shares [of "[]" 0 10]
  by (simp add: three_criteria_def)

subsection \<open>What the handler returns\<close>

lemma parse_and_validate_200:
  "parse_and_validate raw = EssayResponse 200 b \<Longrightarrow>
   \<exists>v s. JSON_parse raw = Some v \<and> b = GradingResult v \<and>
     get_property v (units ''score'') = Some (JNumber s) \<and>
     truthy (get_property v (units ''feedback'')) \<and>
     truthy (get_property v (units ''breakdown''))"
  apply (auto simp: parse_and_validate_def grading_failed_def split: option.splits if_splits)
  subgoal for v by (cases "get_property v (units ''score'')" rule: is_number.cases) auto
  done

lemma grade_essay_reply:
  assumes "question req = Some q" and "q \<noteq> []" and "answer req = Some a" and "trim a \<noteq> []"
    and "chat_completions_create env system_message (request_prompt env req) = Inr (Some content)"
  shows "grade_essay env req = parse_and_validate (clean_response (trim content))"
proof -
  from assms(4) have "a \<noteq> []" by (auto simp: trim_def)
  with assms show ?thesis by (simp add: grade_essay_def request_prompt_def)
qed

text \<open>
  Claim C5, as amended. A grading result that the handler returns is the parsed reply of
  the text-generation service, as it is: its score is a number, and its feedback and its
  breakdown are truthy. The handler checks nothing else of it.
\<close>

theorem returned_result_is_validated_reply:
  assumes "grade_essay env req = EssayResponse 200 b"
  shows "\<exists>content v s.
           chat_completions_create env system_message (request_prompt env req) =
             Inr (Some content) \<and>
           JSON_parse (clean_response (trim content)) = Some v \<and>
           b = GradingResult v \<and>
           get_property v (units ''score'') = Some (JNumber s) \<and>
           truthy (get_property v (units ''feedback'')) \<and>
           truthy (get_property v (units ''breakdown''))"
proof -
  from assms obtain content where
    c: "chat_completions_create env system_message (request_prompt env req) =
          Inr (Some content)" and
    p: "parse_and_validate (clean_response (trim content)) = EssayResponse 200 b"
    by (auto simp: grade_essay_def request_prompt_def Let_def grading_failed_def
        split: if_splits sum.splits option.splits)
  from parse_and_validate_200 [OF p] c show ?thesis by blast
qed

theorem returned_result_is_validated_reply_witness:
  "grade_essay (reply_env correct_reply) example_request =
     EssayResponse 200 (GradingResult correct_result) \<and>
   JSON_parse (clean_response (trim correct_reply)) = Some correct_result \<and>
   get_property correct_result (units ''score'') = Some (JNumber 10)"
  using returned_result_is_validated_reply [OF correct_response] correct_response
  by (simp add: reply_env_def) (simp add: correct_result_def units_def)

text \<open>
  Claim C5 as stated does not hold: the handler checks neither the range of the score nor
  the \<open>max\<close> of a breakdown entry. For the request with one criterion and ten points, a
  reply with score 999 and a per-criterion \<open>max\<close> of 7 is returned with status 200.
\<close>

theorem score_out_of_range_counterexample:
  "grade_essay (reply_env inflated_reply) example_request =
     EssayResponse 200 (GradingResult inflated_result) \<and>
   max_score example_request = Some 10 \<and>
   \<not> score_in_range 10 inflated_result \<and>
   maxPerCriterion 10 [(''accuracy'', ''correctness'')] = 10 \<and>
   \<not> breakdown_max_is 10 inflated_result"
  by (simp add: inflated_response)
     (simp add: example_request_def score_in_range_def breakdown_max_is_def inflated_result_def
        units_def maxPerCriterion_def numCriteria_def)

text \<open>
  Claim C7, as amended. When the reply, trimmed and with its fence markers removed, is
  not valid JSON, the handler answers 500 with the message \<open>Failed to parse AI response.\<close>,
  and the details are that cleaned text.
\<close>

theorem unparsable_reply_reported_with_cleaned_text:
  assumes "question req = Some q" and "q \<noteq> []" and "answer req = Some a" and "trim a \<noteq> []"
    and "chat_completions_create env system_message (request_prompt env req) = Inr (Some content)"
    and "JSON_parse (clean_response (trim content)) = None"
  shows "grade_essay env req =
           EssayResponse 500
             (EssayErrorDetails ''Failed to parse AI response.'' (clean_response (trim content)))"
  using grade_essay_reply [OF assms(1-5)] assms(6) by (simp add: parse_and_validate_def)

theorem unparsable_reply_reported_with_cleaned_text_witness:
  "JSON_parse (clean_response (trim fenced_garbage)) = None \<and>
   grade_essay (reply_env fenced_garbage) example_request =
     EssayResponse 500 (EssayErrorDetails ''Failed to parse AI response.'' ''not json'')"
proof -
  have n: "JSON_parse (clean_response (trim fenced_garbage)) = None"
    by (simp add: fenced_garbage_clean not_json)
  have c: "chat_completions_create (reply_env fenced_garbage) system_message
      (request_prompt (reply_env fenced_garbage) example_request) = Inr (Some fenced_garbage)"
    by (simp add: reply_env_def)
  from unparsable_reply_reported_with_cleaned_text
    [OF example_request_fields(1) _ example_request_fields(2,3) c n] n
  show ?thesis by (simp add: fenced_garbage_clean)
qed

text \<open>
  Claim C7 as stated does not hold: the details are not the raw reply. For a reply in
  code fences the details are the text between the fences.
\<close>

theorem raw_reply_not_attached_counterexample:
  "JSON_parse (clean_response (trim fenced_garbage)) = None \<and>
   grade_essay (reply_env fenced_garbage) example_request =
     EssayResponse 500 (EssayErrorDetails ''Failed to parse AI response.'' ''not json'') \<and>
   ''not json'' \<noteq> fenced_garbage \<and>
   ''not json'' \<noteq> trim fenced_garbage"
proof -
  have c: "chat_completions_create (reply_env fenced_garbage) system_message
      (request_prompt (reply_env fenced_garbage) example_request) = Inr (Some fenced_garbage)"
    by (simp add: reply_env_def)
  have "grade_essay (reply_env fenced_garbage) example_request =
      parse_and_validate (clean_response (trim fenced_garbage))"
    by (rule grade_essay_reply [OF example_request_fields(1) _ example_request_fields(2,3) c]) simp
  then have g: "grade_essay (reply_env fenced_garbage) example_request =
      EssayResponse 500 (EssayErrorDetails ''Failed to parse AI response.'' ''not json'')"
    by (simp add: fenced_garbage_clean not_json parse_and_validate_def)
  have n: "JSON_parse (clean_response (trim fenced_garbage)) = None"
    by (simp add: fenced_garbage_clean not_json)
  have t: "''not json'' \<noteq> trim fenced_garbage"
    by (simp add: fenced_garbage_def newline_def trim_def is_ws_def)
  have r: "''not json'' \<noteq> fenced_garbage"
    by (simp add: fenced_garbage_def)
  from g n t r show ?thesis by blast
qed

subsection \<open>White space and fences\<close>

lemma trim_ws_Cons: "is_ws a \<Longrightarrow> trim (a # s) = trim s"
  by (simp add: trim_def)

lemma trim_ws_snoc:
  assumes "is_ws b"
  shows "trim (s @ [b]) = trim s"
proof (cases "\<forall>c \<in> set s. is_ws c")
  case True
  with assms have "trim (s @ [b]) = []" by (simp add: trim_Nil_iff)
  moreover from True have "trim s = []" by (simp add: trim_Nil_iff)
  ultimately show ?thesis by simp
next
  case False
  then obtain x where "x \<in> set s" "\<not> is_ws x" by blast
  then have "dropWhile is_ws (s @ [b]) = dropWhile is_ws s @ [b]"
    by (simp add: dropWhile_append1)
  with assms show ?thesis by (simp add: trim_def)
qed

lemma trim_fixed: "\<not> is_ws a \<Longrightarrow> \<not> is_ws b \<Longrightarrow> trim (a # s @ [b]) = a # s @ [b]"
  by (simp add: trim_def)

lemma trim_decompose:
  "\<exists>l t. s = l @ trim s @ t \<and> list_all is_ws l \<and> list_all is_ws t"
proof -
  let ?d = "dropWhile is_ws s"
  have "rev (takeWhile is_ws (rev ?d) @ dropWhile is_ws (rev ?d)) = ?d"
    by (simp only: takeWhile_dropWhile_id rev_rev_ident)
  then have "rev (dropWhile is_ws (rev ?d)) @ rev (takeWhile is_ws (rev ?d)) = ?d"
    by (simp only: rev_append)
  then have d: "?d = trim s @ rev (takeWhile is_ws (rev ?d))"
    by (simp add: trim_def)
  have "s = takeWhile is_ws s @ ?d" by simp
  with d have "s = takeWhile is_ws s @ trim s @ rev (takeWhile is_ws (rev ?d))" by simp
  moreover have "list_all is_ws (takeWhile is_ws s)"
    by (simp add: list_all_iff) (metis set_takeWhileD)
  moreover have "list_all is_ws (rev (takeWhile is_ws (rev ?d)))"
    by (simp add: list_all_iff) (metis set_takeWhileD)
  ultimately show ?thesis by blast
qed

lemma has_fence_Cons: "c \<noteq> CHR 0x60 \<Longrightarrow> has_fence (c # s) = has_fence s"
  by (cases s rule: has_fence.cases) auto

lemma has_fence_snoc: "c \<noteq> CHR 0x60 \<Longrightarrow> has_fence (s @ [c]) = has_fence s"
  by (induction s rule: has_fence.induct) auto

lemma replace_fence_tags_id: "\<not> has_fence s \<Longrightarrow> replace_fence_tags s = s"
  by (induction s rule: replace_fence_tags.induct) auto

lemma replace_fences_id: "\<not> has_fence s \<Longrightarrow> replace_fences s = s"
  by (induction s rule: replace_fences.induct) auto

lemma replace_fence_tags_closing:
  "\<not> has_fence y \<Longrightarrow> y \<noteq> [] \<Longrightarrow> last y \<noteq> CHR 0x60 \<Longrightarrow>
   replace_fence_tags (y @ ''```'') = y"
  by (induction y rule: replace_fence_tags.induct) (auto simp: toLowerCase_def split: if_splits)

lemma clean_wrap_fence:
  assumes "\<not> has_fence p" and "tag = [] \<or> tag = ''json''"
  shows "clean_response (wrap_fence tag p) = trim p"
proof -
  let ?y = "newline @ p @ newline"
  have nf: "\<not> has_fence ?y"
    using assms(1) by (simp add: newline_def has_fence_Cons has_fence_snoc)
  have "replace_fence_tags (wrap_fence tag p) = replace_fence_tags (?y @ ''```'')"
    using assms(2)
    by (auto simp: wrap_fence_def newline_def toLowerCase_def lower_char_def)
  also have "\<dots> = ?y"
    using nf by (intro replace_fence_tags_closing) (simp_all add: newline_def)
  finally have "clean_response (wrap_fence tag p) = trim ?y"
    using nf by (simp add: clean_response_def replace_fences_id)
  also have "\<dots> = trim p"
    using trim_ws_snoc [of "CHR 0x0A" "CHR 0x0A # p"]
    by (simp add: newline_def trim_ws_Cons is_ws_def)
  finally show ?thesis .
qed

lemma trim_wrap_fence: "trim (wrap_fence tag p) = wrap_fence tag p"
  using trim_fixed [of "CHR 0x60" "CHR 0x60" "''``'' @ tag @ newline @ p @ newline @ ''``''"]
  by (simp add: wrap_fence_def is_ws_def)

subsection \<open>The lexer and white space\<close>

lemma is_ws_cases:
  "is_ws c \<Longrightarrow>
   c = CHR 0x09 \<or> c = CHR 0x0A \<or> c = CHR 0x0B \<or> c = CHR 0x0C \<or> c = CHR 0x0D \<or>
   c = CHR 0x20 \<or> c = CHR 0xA0"
  by (simp add: is_ws_def)

lemma json_ws_is_ws: "is_json_ws c \<Longrightarrow> is_ws c"
  by (simp add: is_json_ws_def is_ws_def) blast

lemma lex_finish_dead: "dead st \<Longrightarrow> lex_finish st = None"
  by (cases st rule: dead.cases) simp_all

lemma ws_not_atom: "is_ws c \<Longrightarrow> \<not> is_atom_char c"
  by (drule is_ws_cases) (elim disjE; simp add: is_atom_char_def)

lemma ws_not_special:
  "is_ws c \<Longrightarrow> c \<noteq> CHR 0x22 \<and> c \<noteq> CHR 0x5C \<and> c \<noteq> CHR ''u'' \<and> c \<notin> set ''{}[]:,''"
  by (drule is_ws_cases) (elim disjE; simp)

lemma ws_escape_unit: "is_ws c \<Longrightarrow> escape_unit c = None"
  by (drule is_ws_cases) (elim disjE; simp add: escape_unit_def)

lemma ws_hex_value: "is_ws c \<Longrightarrow> hex_value c = None"
  by (drule is_ws_cases) (elim disjE; simp add: hex_value_def)

lemmas ws_facts = ws_not_atom ws_not_special ws_escape_unit ws_hex_value

lemma lex_step_json_ws:
  assumes "is_json_ws c"
  shows "lex_finish (lex_step st c) = lex_finish st"
proof -
  obtain toks m where st: "st = (toks, m)" by (cases st)
  have ws: "is_ws c" using assms by (rule json_ws_is_ws)
  show ?thesis
    using assms ws_facts [OF ws]
    by (cases m) (auto simp: st start_token_def split: option.splits)
qed

lemma lex_step_other_ws:
  assumes "is_ws c" and "\<not> is_json_ws c"
  shows "dead (lex_step st c)"
proof -
  obtain toks m where st: "st = (toks, m)" by (cases st)
  show ?thesis
    using assms(2) ws_facts [OF assms(1)]
    by (cases m) (auto simp: st start_token_def split: option.splits)
qed

lemma lex_step_dead:
  assumes "dead st" and "is_ws c"
  shows "dead (lex_step st c)"
  using assms(1) ws_facts [OF assms(2)]
  by (cases st rule: dead.cases) auto

lemma foldl_lex_step_dead:
  "dead st \<Longrightarrow> list_all is_ws y \<Longrightarrow> dead (foldl lex_step st y)"
  by (induction y arbitrary: st) (auto simp: lex_step_dead)

lemma foldl_lex_step_Broken: "foldl lex_step (toks, Broken) s = (toks, Broken)"
  by (induction s) auto

lemma lex_trailing_ws:
  "list_all is_ws y \<Longrightarrow> lex_finish (foldl lex_step st y) = Some ts \<Longrightarrow> lex_finish st = Some ts"
proof (induction y arbitrary: st)
  case Nil
  then show ?case by simp
next
  case (Cons c y)
  show ?case
  proof (cases "is_json_ws c")
    case True
    from Cons have "lex_finish (lex_step st c) = Some ts" by simp
    with True show ?thesis by (simp add: lex_step_json_ws)
  next
    case False
    with Cons.prems have "dead (foldl lex_step (lex_step st c) y)"
      by (intro foldl_lex_step_dead lex_step_other_ws) auto
    with Cons.prems show ?thesis by (simp add: lex_finish_dead)
  qed
qed

lemma tokenize_leading_ws:
  "list_all is_ws y \<Longrightarrow> tokenize (y @ s) = Some ts \<Longrightarrow> tokenize s = Some ts"
proof (induction y)
  case Nil
  then show ?case by simp
next
  case (Cons c y)
  show ?case
  proof (cases "is_json_ws c")
    case True
    with Cons show ?thesis by (simp add: tokenize_def start_token_def)
  next
    case False
    from Cons.prems have "is_ws c" by simp
    from ws_facts [OF this] False
    have "lex_step ([], Between) c = ([], Broken)" by (simp add: start_token_def)
    with Cons.prems show ?thesis by (simp add: tokenize_def foldl_lex_step_Broken)
  qed
qed

lemma tokenize_trim: "tokenize s = Some ts \<Longrightarrow> tokenize (trim s) = Some ts"
proof -
  assume a: "tokenize s = Some ts"
  obtain l t where d: "s = l @ trim s @ t" "list_all is_ws l" "list_all is_ws t"
    using trim_decompose by blast
  from a d(1) have "tokenize (l @ trim s @ t) = Some ts" by simp
  with d(2) have "tokenize (trim s @ t) = Some ts" by (rule tokenize_leading_ws)
  then have "lex_finish (foldl lex_step (foldl lex_step ([], Between) (trim s)) t) = Some ts"
    by (simp add: tokenize_def)
  with d(3) show ?thesis unfolding tokenize_def by (rule lex_trailing_ws)
qed

lemma JSON_parse_trim: "JSON_parse s = Some v \<Longrightarrow> JSON_parse (trim s) = Some v"
  by (auto simp: JSON_parse_def tokenize_trim split: option.splits)

subsection \<open>Fenced payloads\<close>

text \<open>
  Claim C8, as amended. For a valid JSON payload in which no three backticks stand next
  to each other, wrapped in code fences with the tag \<open>json\<close> or with none, removing the
  fence markers and parsing gives the value that parsing the payload gives; the same holds
  with the trim that the handler applies first.
\<close>

theorem fenced_payload_parses_like_payload:
  assumes "JSON_parse p = Some v" and "\<not> has_fence p" and "tag = [] \<or> tag = ''json''"
  shows "JSON_parse (clean_response (wrap_fence tag p)) = JSON_parse p \<and>
         JSON_parse (clean_response (trim (wrap_fence tag p))) = JSON_parse p"
  using assms by (simp add: trim_wrap_fence clean_wrap_fence JSON_parse_trim)

theorem fenced_payload_parses_like_payload_witness:
  "JSON_parse correct_reply = Some correct_result \<and>
   \<not> has_fence correct_reply \<and>
   JSON_parse (clean_response (wrap_fence ''json'' correct_reply)) = Some correct_result \<and>
   JSON_parse (clean_response (wrap_fence [] correct_reply)) = Some correct_result \<and>
   JSON_parse (clean_response (trim (wrap_fence ''json'' correct_reply))) = Some correct_result"
proof -
  have nf: "\<not> has_fence correct_reply" by (simp add: correct_reply_def)
  from fenced_payload_parses_like_payload [OF correct_parse nf, of "''json''"]
    fenced_payload_parses_like_payload [OF correct_parse nf, of "[]"] correct_parse nf
  show ?thesis by simp
qed

text \<open>
  Claim C8 as stated does not hold for every payload: three backticks inside a string of
  the payload are removed with the fences, and the parsed value differs.
\<close>

theorem fence_inside_payload_counterexample:
  "JSON_parse fence_in_feedback =
     Some (JObject
       [(units ''score'', JNumber 1), (units ''feedback'', JString (units ''Wrap code in ```'')),
        (units ''breakdown'', JObject [])]) \<and>
   JSON_parse (clean_response (wrap_fence ''json'' fence_in_feedback)) =
     Some (JObject
       [(units ''score'', JNumber 1), (units ''feedback'', JString (units ''Wrap code in '')),
        (units ''breakdown'', JObject [])]) \<and>
   JSON_parse (clean_response (wrap_fence ''json'' fence_in_feedback)) \<noteq>
     JSON_parse fence_in_feedback"
proof -
  have a: "JSON_parse fence_in_feedback =
     Some (JObject
       [(units ''score'', JNumber 1), (units ''feedback'', JString (units ''Wrap code in ```'')),
        (units ''breakdown'', JObject [])])"
    by (simp add: fence_in_feedback_def json_eval units_def)
  have c: "clean_response (wrap_fence ''json'' fence_in_feedback) =
     ''{\"score\":1,\"feedback\":\"Wrap code in \",\"breakdown\":{}}''"
    by (simp add: fence_in_feedback_def wrap_fence_def newline_def clean_response_def trim_def
        is_ws_def toLowerCase_def lower_char_def)
  have b: "JSON_parse ''{\"score\":1,\"feedback\":\"Wrap code in \",\"breakdown\":{}}'' =
     Some (JObject
       [(units ''score'', JNumber 1), (units ''feedback'', JString (units ''Wrap code in '')),
        (units ''breakdown'', JObject [])])"
    by (simp add: json_eval units_def)
  from a b c show ?thesis by (simp add: units_def)
qed

end
